theory Spec2Isabelle
  imports Main "HOL-Library.Multiset"
begin

section \<open>Dashboard page state managers (DashboardScenePageStateManager.ts)\<close>

subsection \<open>Data model\<close>

text \<open>
  \<open>UrlQueryValue\<close> of @grafana/data: the values a URL query parameter can take.
  Numbers are modelled as integers. Two values are compared by lodash \<open>isEqual\<close>,
  which on these shapes is structural equality, that is HOL equality.
\<close>

datatype UrlQueryValue =
  UStr string | UNum int | UBool bool
  | UStrs "string list" | UNums "int list" | UBools "bool list"
  | UNull | UUndefined

text \<open>\<open>UrlQueryMap = Record<string, UrlQueryValue>\<close>: an object, so key order is irrelevant.\<close>

type_synonym UrlQueryMap = "string \<rightharpoonup> UrlQueryValue"

text \<open>
  The enum \<open>DashboardRoutes\<close> of app/types. The manager distinguishes Home, New, Normal,
  Public, Embedded and Provisioning; every other member takes the \<open>default\<close> branch.
\<close>

datatype DashboardRoutes =
  Home | New | Normal | Path | Scripted | Public | Embedded | Report | Provisioning

record TimeRange =
  tr_from :: string
  tr_to :: string

text \<open>\<open>LoadDashboardOptions['params']\<close>.\<close>

record Params =
  params_version :: int
  params_scopes :: "string list"
  params_timeRange :: TimeRange
  params_variables :: UrlQueryMap

record LoadDashboardOptions =
  uid :: string
  route :: DashboardRoutes
  slug :: "string option"
  dbtype :: "string option"
  urlFolderUid :: "string option"
  params :: "Params option"

text \<open>
  What a rejected promise or a \<open>throw\<close> carries. \<open>FetchError\<close> has the fields the
  manager and the error helpers read: status, cancelled, data.messageId and a message.
  \<open>DashboardVersionError\<close> carries \<open>data.storedVersion\<close>; \<open>Error\<close> is a plain
  \<open>new Error(message)\<close>.
\<close>

datatype error =
  FetchError int bool "string option" string
  | DashboardVersionError string
  | Error string

text \<open>
  \<open>isFetchError(e) && e.cancelled\<close>: only a fetch error has a \<open>cancelled\<close> flag; on
  every other error the property is absent, hence falsy.
\<close>

fun isFetchError :: "error \<Rightarrow> bool" where
  "isFetchError (FetchError _ _ _ _) = True"
| "isFetchError _ = False"

fun cancelled :: "error \<Rightarrow> bool" where
  "cancelled (FetchError _ c _ _) = c"
| "cancelled _ = False"

record LoadError =
  status :: "int option"
  messageId :: "string option"
  message :: string

text \<open>
  A \<open>DashboardScene\<close> is handled by reference; the manager reads only
  \<open>state.version\<close> of it. \<open>scene_body\<close> stands for the rest of the scene.
\<close>

record DashboardScene =
  scene_version :: "int option"
  scene_body :: string

text \<open>The v1 response \<open>DashboardDTO = {dashboard, meta}\<close>, with the fields the manager uses.\<close>

record DashboardMeta =
  url :: "string option"
  folderUid :: "string option"
  canSave :: "bool option"
  canShare :: "bool option"
  canStar :: "bool option"
  isEmbedded :: "bool option"

record DashboardDataDTO =
  dto_version :: "int option"
  dto_title :: string

record DashboardDTO =
  dashboard :: DashboardDataDTO
  meta :: DashboardMeta

text \<open>
  The v2 response \<open>DashboardWithAccessInfo<DashboardV2Spec>\<close>. A missing
  \<open>metadata.annotations\<close> object is the empty map: the manager only looks a key up
  with \<open>annotations?.[key]\<close>.
\<close>

record DashboardAccess =
  access_url :: "string option"
  access_canSave :: "bool option"
  access_canShare :: "bool option"
  access_canStar :: "bool option"

record ObjectMeta =
  generation :: "int option"
  annotations :: "string \<rightharpoonup> string"

record DashboardWithAccessInfo =
  spec :: string
  metadata :: ObjectMeta
  access :: DashboardAccess

text \<open>
  What \<open>GET /api/dashboards/home\<close> can answer: a redirect, a DTO whose dashboard is a
  v1 model, a DTO whose dashboard is a v2 spec (\<open>isDashboardV2Spec(rsp.dashboard)\<close>), or
  a v2 resource (\<open>isDashboardV2Resource(dto)\<close>).
\<close>

datatype HomeResponse =
  HomeDashboardRedirectDTO string
  | HomeDashboardDTO DashboardDTO
  | HomeDashboardV2SpecDTO string DashboardMeta
  | HomeDashboardV2Resource DashboardWithAccessInfo

datatype ManagerVersion = V1 | V2

text \<open>
  The query object built in the \<open>default\<close> branch of \<open>fetchDashboard\<close>:
  \<open>{version, scopes, from, to, ...variables}\<close>. The spread comes last, so a variable
  named like one of the four fixed keys overrides it.
\<close>

type_synonym QueryParams = "string \<rightharpoonup> UrlQueryValue"

definition queryParams :: "Params \<Rightarrow> QueryParams" where
  "queryParams p =
     [''version'' \<mapsto> UNum (params_version p),
      ''scopes'' \<mapsto> UStrs (params_scopes p),
      ''from'' \<mapsto> UStr (tr_from (params_timeRange p)),
      ''to'' \<mapsto> UStr (tr_to (params_timeRange p))] ++ params_variables p"

subsection \<open>The world outside the manager\<close>

text \<open>
  Every call the managers make to a collaborator is recorded, in order, in the trace of
  the world, together with every entry into a manager's \<open>fetchDashboard\<close>. The clock
  is what \<open>Date.now()\<close> reads (milliseconds); \<open>pathname\<close> is the location that
  \<open>locationService\<close> holds.
\<close>

datatype call =
  FetchDashboard ManagerVersion LoadDashboardOptions
  | BuildNewDashboardSaveModel "string option"
  | BuildNewDashboardSaveModelV2 "string option"
  | GetHomeDashboard
  | LoaderLoadDashboard string "string option" string "QueryParams option"
  | LoaderV2LoadDashboard string "string option" string "QueryParams option"
  | LoaderLoadSnapshot string
  | LoaderV2LoadSnapshot string
  | UpdateNavModel string
  | LocationReplace string
  | StartMeasure
  | StopMeasure
  | RestoreDashboardStateFromLocalStorage DashboardScene
  | TrackDashboardSceneLoaded DashboardScene
  | StartProfile DashboardScene
  | EmitDashboardViewEvent DashboardScene

record world =
  clock :: int
  trace :: "call list"
  pathname :: string

text \<open>
  The collaborators are not part of the manager; they are parameters of the model. Each
  answer may depend on the world at the time of the call (so a repeated request can be
  answered differently). \<open>Inl\<close> is a rejected promise or a thrown exception.
\<close>

record env =
  buildNewDashboardSaveModel :: "world \<Rightarrow> string option \<Rightarrow> error + DashboardDTO"
  buildNewDashboardSaveModelV2 :: "world \<Rightarrow> string option \<Rightarrow> error + DashboardWithAccessInfo"
  getHomeDashboard :: "world \<Rightarrow> error + HomeResponse"
  loaderLoadDashboard ::
    "world \<Rightarrow> string \<Rightarrow> string option \<Rightarrow> string \<Rightarrow> QueryParams option \<Rightarrow> error + DashboardDTO"
  loaderV2LoadDashboard ::
    "world \<Rightarrow> string \<Rightarrow> string option \<Rightarrow> string \<Rightarrow> QueryParams option
      \<Rightarrow> error + DashboardWithAccessInfo"
  loaderLoadSnapshot :: "world \<Rightarrow> string \<Rightarrow> error + DashboardDTO option"
  loaderV2LoadSnapshot :: "world \<Rightarrow> string \<Rightarrow> error + DashboardWithAccessInfo option"
  updateNavModel :: "world \<Rightarrow> string \<Rightarrow> error option"
  transformSaveModelToScene :: "DashboardDTO \<Rightarrow> error + DashboardScene"
  transformSaveModelSchemaV2ToScene :: "DashboardWithAccessInfo \<Rightarrow> error + DashboardScene"
  stripBaseFromUrl :: "string \<Rightarrow> string"
  getStatusFromError :: "error \<Rightarrow> int option"
  getMessageFromError :: "error \<Rightarrow> string"
  getMessageIdFromError :: "error \<Rightarrow> string option"
  preserveDashboardStateWhenNavigating :: bool
  hasQueryController :: "DashboardScene \<Rightarrow> bool"
  elapsed :: "call \<Rightarrow> nat"

text \<open>Recording a call: it is appended to the trace and the clock advances by its duration.\<close>

definition perform :: "env \<Rightarrow> call \<Rightarrow> world \<Rightarrow> world" where
  "perform e c w = w\<lparr>clock := clock w + int (elapsed e c), trace := trace w @ [c]\<rparr>"

text \<open>\<open>locationService.replace\<close>: the location changes and the call is recorded.\<close>

definition locationReplace :: "env \<Rightarrow> string \<Rightarrow> world \<Rightarrow> world" where
  "locationReplace e p w = (perform e (LocationReplace p) w)\<lparr>pathname := p\<rparr>"

subsection \<open>DashboardScenePageStateManagerBase\<close>

definition DASHBOARD_CACHE_TTL :: int where
  "DASHBOARD_CACHE_TTL = 500"

definition HOME_DASHBOARD_CACHE_KEY :: string where
  "HOME_DASHBOARD_CACHE_KEY = ''__grafana_home_uid__''"

text \<open>\<open>DashboardScenePageState\<close>; an absent or undefined field is \<open>None\<close>.\<close>

record DashboardScenePageState =
  st_dashboard :: "DashboardScene option"
  st_options :: "LoadDashboardOptions option"
  st_isLoading :: "bool option"
  st_loadError :: "LoadError option"

record 'T DashboardCacheEntry =
  entry_dashboard :: 'T
  ts :: int
  cacheKey :: string

text \<open>
  The fields of the base class: the page state, the scene cache
  (\<open>cache: Record<string, DashboardScene>\<close>) and the single short-term raw-response
  entry \<open>dashboardCache?: DashboardCacheEntry<T>\<close>.
\<close>

record 'T ManagerBase =
  state :: DashboardScenePageState
  cache :: "string \<rightharpoonup> DashboardScene"
  dashboardCache :: "'T DashboardCacheEntry option"

definition initialState :: DashboardScenePageState where
  "initialState = \<lparr>st_dashboard = None, st_options = None, st_isLoading = None, st_loadError = None\<rparr>"

definition newManager :: "'T ManagerBase" where
  "newManager = \<lparr>state = initialState, cache = Map.empty, dashboardCache = None\<rparr>"

text \<open>\<open>getDashboardFromCache(cacheKey)\<close>; \<open>now\<close> is what \<open>Date.now()\<close> returns.\<close>

definition getDashboardFromCache ::
  "int \<Rightarrow> ('T, 'm) ManagerBase_scheme \<Rightarrow> string \<Rightarrow> 'T option" where
  "getDashboardFromCache now m k =
     (case dashboardCache m of
        None \<Rightarrow> None
      | Some cachedDashboard \<Rightarrow>
          if cacheKey cachedDashboard = k \<and> now - ts cachedDashboard < DASHBOARD_CACHE_TTL
          then Some (entry_dashboard cachedDashboard)
          else None)"

definition setDashboardCache ::
  "int \<Rightarrow> string \<Rightarrow> 'T \<Rightarrow> ('T, 'm) ManagerBase_scheme \<Rightarrow> ('T, 'm) ManagerBase_scheme" where
  "setDashboardCache now k d m =
     m\<lparr>dashboardCache := Some \<lparr>entry_dashboard = d, ts = now, cacheKey = k\<rparr>\<rparr>"

definition clearDashboardCache :: "('T, 'm) ManagerBase_scheme \<Rightarrow> ('T, 'm) ManagerBase_scheme" where
  "clearDashboardCache m = m\<lparr>dashboardCache := None\<rparr>"

definition getSceneFromCache :: "('T, 'm) ManagerBase_scheme \<Rightarrow> string \<Rightarrow> DashboardScene option" where
  "getSceneFromCache m k = cache m k"

definition setSceneCache ::
  "string \<Rightarrow> DashboardScene \<Rightarrow> ('T, 'm) ManagerBase_scheme \<Rightarrow> ('T, 'm) ManagerBase_scheme" where
  "setSceneCache k scene m = m\<lparr>cache := (cache m)(k \<mapsto> scene)\<rparr>"

definition clearSceneCache :: "('T, 'm) ManagerBase_scheme \<Rightarrow> ('T, 'm) ManagerBase_scheme" where
  "clearSceneCache m = m\<lparr>cache := Map.empty\<rparr>"

text \<open>The \<open>LoadError\<close> built in the \<open>catch\<close> of \<open>loadDashboard\<close> and \<open>loadSnapshot\<close>.\<close>

definition loadErrorOf :: "env \<Rightarrow> error \<Rightarrow> LoadError" where
  "loadErrorOf e err =
     \<lparr>status = getStatusFromError e err,
      messageId = getMessageIdFromError e err,
      message = getMessageFromError e err\<rparr>"


text \<open>\<open>setState(update)\<close> of \<open>StateManagerBase\<close>: the update is merged into the state.\<close>

definition setState ::
  "(DashboardScenePageState \<Rightarrow> DashboardScenePageState)
   \<Rightarrow> ('T, 'm) ManagerBase_scheme \<Rightarrow> ('T, 'm) ManagerBase_scheme" where
  "setState f m = m\<lparr>state := f (state m)\<rparr>"

text \<open>
  \<open>loadScene\<close>, \<open>loadDashboard\<close> and \<open>loadSnapshot\<close> call the abstract methods
  \<open>fetchDashboard\<close>, \<open>transformResponseToScene\<close> and \<open>loadSnapshotScene\<close>; the
  subclass's implementations are parameters here. A result \<open>Inr None\<close> is \<open>null\<close>.
\<close>

definition loadScene ::
  "(LoadDashboardOptions \<Rightarrow> ('T, 'm) ManagerBase_scheme \<Rightarrow> world
      \<Rightarrow> (error + 'T option) \<times> ('T, 'm) ManagerBase_scheme \<times> world)
   \<Rightarrow> ('T option \<Rightarrow> LoadDashboardOptions \<Rightarrow> ('T, 'm) ManagerBase_scheme
      \<Rightarrow> (error + DashboardScene option) \<times> ('T, 'm) ManagerBase_scheme)
   \<Rightarrow> LoadDashboardOptions \<Rightarrow> ('T, 'm) ManagerBase_scheme \<Rightarrow> world
   \<Rightarrow> (error + DashboardScene option) \<times> ('T, 'm) ManagerBase_scheme \<times> world" where
  "loadScene fetch transform options m w =
     (let m1 = setState (\<lambda>s. s\<lparr>st_dashboard := None, st_isLoading := Some True\<rparr>) m in
      case fetch options m1 w of
        (Inl err, m2, w2) \<Rightarrow> (Inl err, m2, w2)
      | (Inr None, m2, w2) \<Rightarrow> (Inr None, m2, w2)
      | (Inr (Some rsp), m2, w2) \<Rightarrow>
          (case transform (Some rsp) options m2 of (r, m3) \<Rightarrow> (r, m3, w2)))"

text \<open>
  \<open>loadDashboard(options)\<close>. Everything runs inside one \<open>try\<close>; the \<open>catch\<close> stores
  a \<open>LoadError\<close>. A \<open>null\<close> scene returns at once. The measurement, tracking and
  profiling calls after a successful load are recorded in the trace (they are taken not to
  throw).
\<close>

definition loadDashboard ::
  "env
   \<Rightarrow> (LoadDashboardOptions \<Rightarrow> ('T, 'm) ManagerBase_scheme \<Rightarrow> world
      \<Rightarrow> (error + 'T option) \<times> ('T, 'm) ManagerBase_scheme \<times> world)
   \<Rightarrow> ('T option \<Rightarrow> LoadDashboardOptions \<Rightarrow> ('T, 'm) ManagerBase_scheme
      \<Rightarrow> (error + DashboardScene option) \<times> ('T, 'm) ManagerBase_scheme)
   \<Rightarrow> LoadDashboardOptions \<Rightarrow> ('T, 'm) ManagerBase_scheme \<Rightarrow> world
   \<Rightarrow> ('T, 'm) ManagerBase_scheme \<times> world" where
  "loadDashboard e fetch transform options m w =
     (case loadScene fetch transform options m (perform e StartMeasure w) of
        (Inl err, m1, w1) \<Rightarrow>
          (setState (\<lambda>s. s\<lparr>st_isLoading := Some False,
                            st_loadError := Some (loadErrorOf e err)\<rparr>) m1, w1)
      | (Inr None, m1, w1) \<Rightarrow> (m1, w1)
      | (Inr (Some scene), m1, w1) \<Rightarrow>
          (let w2 = (if preserveDashboardStateWhenNavigating e \<and> uid options \<noteq> []
                     then perform e (RestoreDashboardStateFromLocalStorage scene) w1 else w1);
               m2 = setState (\<lambda>s. s\<lparr>st_dashboard := Some scene, st_isLoading := Some False,
                                      st_options := Some options\<rparr>) m1;
               w3 = perform e StopMeasure w2;
               w4 = perform e (TrackDashboardSceneLoaded scene) w3;
               w5 = (if hasQueryController e scene
                     then perform e (StartProfile scene) w4 else w4);
               w6 = (if route options \<noteq> New
                     then perform e (EmitDashboardViewEvent scene) w5 else w5)
           in (m2, w6)))"

definition loadSnapshot ::
  "env
   \<Rightarrow> (string \<Rightarrow> ('T, 'm) ManagerBase_scheme \<Rightarrow> world
      \<Rightarrow> (error + DashboardScene) \<times> ('T, 'm) ManagerBase_scheme \<times> world)
   \<Rightarrow> string \<Rightarrow> ('T, 'm) ManagerBase_scheme \<Rightarrow> world
   \<Rightarrow> ('T, 'm) ManagerBase_scheme \<times> world" where
  "loadSnapshot e snapshotScene sl m w =
     (case snapshotScene sl m w of
        (Inr scene, m1, w1) \<Rightarrow>
          (setState (\<lambda>s. s\<lparr>st_dashboard := Some scene, st_isLoading := Some False\<rparr>) m1, w1)
      | (Inl err, m1, w1) \<Rightarrow>
          (setState (\<lambda>s. s\<lparr>st_isLoading := Some False,
                            st_loadError := Some (loadErrorOf e err)\<rparr>) m1, w1))"

subsection \<open>DashboardScenePageStateManager (v1)\<close>

type_synonym ManagerV1 = "DashboardDTO ManagerBase"

text \<open>JavaScript truthiness of an optional string: present and not empty.\<close>

fun truthy :: "string option \<Rightarrow> bool" where
  "truthy None = False"
| "truthy (Some s) = (s \<noteq> [])"

text \<open>\<open>x || d\<close> on an optional string.\<close>

fun orElse :: "string option \<Rightarrow> string \<Rightarrow> string" where
  "orElse None d = d"
| "orElse (Some s) d = (if s = [] then d else s)"

text \<open>
  The tail of both \<open>transformResponseToScene\<close> methods once the cached scene did not
  match: build the scene, cache it under a non-empty uid, or throw when there is no
  response.
\<close>

definition buildAndCacheScene ::
  "('T \<Rightarrow> error + DashboardScene) \<Rightarrow> 'T option \<Rightarrow> LoadDashboardOptions \<Rightarrow> 'T ManagerBase
   \<Rightarrow> (error + DashboardScene option) \<times> 'T ManagerBase" where
  "buildAndCacheScene transform rsp options m =
     (case rsp of
        None \<Rightarrow> (Inl (Error ''Dashboard not found''), m)
      | Some r \<Rightarrow>
          (case transform r of
             Inl err \<Rightarrow> (Inl err, m)
           | Inr scene \<Rightarrow>
               (Inr (Some scene),
                if uid options \<noteq> [] then setSceneCache (uid options) scene m else m)))"

text \<open>
  \<open>transformResponseToScene(rsp, options)\<close>. The cached scene is returned when its
  version equals \<open>rsp?.dashboard.version\<close> (both can be undefined).
\<close>

definition transformResponseToScene ::
  "env \<Rightarrow> DashboardDTO option \<Rightarrow> LoadDashboardOptions \<Rightarrow> ManagerV1
   \<Rightarrow> (error + DashboardScene option) \<times> ManagerV1" where
  "transformResponseToScene e rsp options m =
     (let fromCache = getSceneFromCache m (uid options);
          rspVersion = (case rsp of None \<Rightarrow> None | Some r \<Rightarrow> dto_version (dashboard r))
      in if (case fromCache of None \<Rightarrow> False | Some scene \<Rightarrow> scene_version scene = rspVersion)
         then (Inr fromCache, m)
         else buildAndCacheScene (transformSaveModelToScene e) rsp options m)"

definition loadSnapshotScene ::
  "env \<Rightarrow> string \<Rightarrow> ManagerV1 \<Rightarrow> world \<Rightarrow> (error + DashboardScene) \<times> ManagerV1 \<times> world" where
  "loadSnapshotScene e sl m w =
     (let w1 = perform e (LoaderLoadSnapshot sl) w in
      case loaderLoadSnapshot e w sl of
        Inl err \<Rightarrow> (Inl err, m, w1)
      | Inr None \<Rightarrow> (Inl (Error ''Snapshot not found''), m, w1)
      | Inr (Some rsp) \<Rightarrow>
          (case transformSaveModelToScene e rsp of
             Inl err \<Rightarrow> (Inl err, m, w1)
           | Inr scene \<Rightarrow> (Inr scene, m, w1)))"

text \<open>
  The \<open>switch (route)\<close> inside the \<open>try\<close> of \<open>fetchDashboard\<close>. The result is an
  exception (\<open>Inl\<close>), a \<open>return\<close> from inside the switch (\<open>Inr (Inl r)\<close>), or the
  response \<open>rsp\<close> the code goes on with after \<open>break\<close> (\<open>Inr (Inr rsp)\<close>).
  A home response that is a v2 resource has no \<open>meta\<close>, so reading \<open>rsp.meta.url\<close>
  after the switch raises a TypeError.
\<close>

definition fetchDashboard_switch ::
  "env \<Rightarrow> LoadDashboardOptions \<Rightarrow> world \<Rightarrow> (error + DashboardDTO option + DashboardDTO) \<times> world" where
  "fetchDashboard_switch e options w =
     (case route options of
        New \<Rightarrow>
          (let w1 = perform e (BuildNewDashboardSaveModel (urlFolderUid options)) w in
           case buildNewDashboardSaveModel e w (urlFolderUid options) of
             Inl err \<Rightarrow> (Inl err, w1)
           | Inr rsp \<Rightarrow> (Inr (Inr rsp), w1))
      | Home \<Rightarrow>
          (let w1 = perform e GetHomeDashboard w in
           case getHomeDashboard e w of
             Inl err \<Rightarrow> (Inl err, w1)
           | Inr (HomeDashboardRedirectDTO redirectUri) \<Rightarrow>
               (Inr (Inl None), locationReplace e (stripBaseFromUrl e redirectUri) w1)
           | Inr (HomeDashboardV2SpecDTO _ _) \<Rightarrow>
               (Inl (Error (''You are trying to load a v2 dashboard spec as v1. '' @
                            ''Use DashboardScenePageStateManagerV2 instead.'')), w1)
           | Inr (HomeDashboardV2Resource _) \<Rightarrow>
               (Inl (Error ''TypeError: rsp.meta is undefined''), w1)
           | Inr (HomeDashboardDTO rsp) \<Rightarrow>
               (Inr (Inr (rsp\<lparr>meta := (meta rsp)\<lparr>canSave := Some False, canShare := Some False,
                                                   canStar := Some False\<rparr>\<rparr>)), w1))
      | Provisioning \<Rightarrow>
          (let w1 = perform e (LoaderLoadDashboard ''provisioning'' (slug options) (uid options) None) w in
           case loaderLoadDashboard e w ''provisioning'' (slug options) (uid options) None of
             Inl err \<Rightarrow> (Inl err, w1)
           | Inr rsp \<Rightarrow> (Inr (Inl (Some rsp)), w1))
      | Public \<Rightarrow>
          (let w1 = perform e (LoaderLoadDashboard ''public'' (Some []) (uid options) None) w in
           case loaderLoadDashboard e w ''public'' (Some []) (uid options) None of
             Inl err \<Rightarrow> (Inl err, w1)
           | Inr rsp \<Rightarrow> (Inr (Inl (Some rsp)), w1))
      | _ \<Rightarrow>
          (let qp = map_option queryParams (params options);
               ty = orElse (dbtype options) ''db'';
               sl = Some (orElse (slug options) []);
               w1 = perform e (LoaderLoadDashboard ty sl (uid options) qp) w in
           case loaderLoadDashboard e w ty sl (uid options) qp of
             Inl err \<Rightarrow> (Inl err, w1)
           | Inr rsp \<Rightarrow>
               (Inr (Inr (if route options = Embedded
                          then rsp\<lparr>meta := (meta rsp)\<lparr>isEmbedded := Some True\<rparr>\<rparr> else rsp)), w1)))"

text \<open>
  The rest of the \<open>try\<close> block, after the switch: the URL correction on the Normal
  route, \<open>updateNavModel\<close> for a dashboard in a folder, and the write into the
  raw-response cache. (The \<open>console.log\<close> is not modelled.)
\<close>

definition fetchDashboard_finish ::
  "env \<Rightarrow> LoadDashboardOptions \<Rightarrow> string \<Rightarrow> DashboardDTO \<Rightarrow> ManagerV1 \<Rightarrow> world
   \<Rightarrow> (error + DashboardDTO option) \<times> ManagerV1 \<times> world" where
  "fetchDashboard_finish e options key rsp m w =
     (let w1 = (if truthy (url (meta rsp)) \<and> route options = Normal
                then (let dashboardUrl = stripBaseFromUrl e (the (url (meta rsp))) in
                      if dashboardUrl \<noteq> pathname w then locationReplace e dashboardUrl w else w)
                else w)
      in if truthy (folderUid (meta rsp))
         then (let w2 = perform e (UpdateNavModel (the (folderUid (meta rsp)))) w1 in
               case updateNavModel e w1 (the (folderUid (meta rsp))) of
                 Some err \<Rightarrow> (Inl err, m, w2)
               | None \<Rightarrow> (Inr (Some rsp), setDashboardCache (clock w2) key rsp m, w2))
         else (Inr (Some rsp), setDashboardCache (clock w1) key rsp m, w1))"

text \<open>
  \<open>const cacheKey = route === DashboardRoutes.Home ? HOME_DASHBOARD_CACHE_KEY : uid\<close>,
  the first statement of both \<open>fetchDashboard\<close> methods.
\<close>

definition cacheKeyOf :: "LoadDashboardOptions \<Rightarrow> string" where
  "cacheKeyOf options = (if route options = Home then HOME_DASHBOARD_CACHE_KEY else uid options)"

text \<open>The body of the \<open>try\<close> block of \<open>fetchDashboard\<close>.\<close>

definition fetchDashboard_try ::
  "env \<Rightarrow> LoadDashboardOptions \<Rightarrow> string \<Rightarrow> ManagerV1 \<Rightarrow> world
   \<Rightarrow> (error + DashboardDTO option) \<times> ManagerV1 \<times> world" where
  "fetchDashboard_try e options key m w =
     (case fetchDashboard_switch e options w of
        (Inl err, w1) \<Rightarrow> (Inl err, m, w1)
      | (Inr (Inl r), w1) \<Rightarrow> (Inr r, m, w1)
      | (Inr (Inr rsp), w1) \<Rightarrow> fetchDashboard_finish e options key rsp m w1)"

text \<open>
  \<open>fetchDashboard(options)\<close>: the raw-response cache is consulted only when there
  are no \<open>params\<close>; the \<open>catch\<close> turns a cancelled fetch error into \<open>null\<close> and
  rethrows everything else.
\<close>

definition fetchDashboard ::
  "env \<Rightarrow> LoadDashboardOptions \<Rightarrow> ManagerV1 \<Rightarrow> world
   \<Rightarrow> (error + DashboardDTO option) \<times> ManagerV1 \<times> world" where
  "fetchDashboard e options m w0 =
     (let w = w0\<lparr>trace := trace w0 @ [FetchDashboard V1 options]\<rparr>;
          key = cacheKeyOf options;
          cachedDashboard =
            (if params options = None then getDashboardFromCache (clock w) m key else None)
      in case cachedDashboard of
           Some d \<Rightarrow> (Inr (Some d), m, w)
         | None \<Rightarrow>
             (case fetchDashboard_try e options key m w of
                (Inl err, m1, w1) \<Rightarrow>
                  if isFetchError err \<and> cancelled err then (Inr None, m1, w1) else (Inl err, m1, w1)
              | (Inr r, m1, w1) \<Rightarrow> (Inr r, m1, w1)))"

text \<open>
  \<open>reloadDashboard(params)\<close>. Nothing happens without \<open>state.options\<close>, or when the
  variables and the scopes of the new params are \<open>isEqual\<close> to those of
  \<open>state.options.params\<close> (\<open>params?.variables\<close> of absent params is undefined).
  The \<open>catch\<close> builds the \<open>LoadError\<close> from message and status only.
\<close>

definition reloadDashboard ::
  "env \<Rightarrow> Params option \<Rightarrow> ManagerV1 \<Rightarrow> world \<Rightarrow> ManagerV1 \<times> world" where
  "reloadDashboard e ps m w =
     (case st_options (state m) of
        None \<Rightarrow> (m, w)
      | Some stateOptions \<Rightarrow>
          (let options = stateOptions\<lparr>params := ps\<rparr> in
           if map_option params_variables (params options)
                = map_option params_variables (params stateOptions)
              \<and> map_option params_scopes (params options)
                = map_option params_scopes (params stateOptions)
           then (m, w)
           else
             (case fetchDashboard e options (setState (\<lambda>s. s\<lparr>st_isLoading := Some True\<rparr>) m) w of
                (Inl err, m1, w1) \<Rightarrow>
                  (setState (\<lambda>s. s\<lparr>st_isLoading := Some False,
                       st_loadError := Some \<lparr>status = getStatusFromError e err, messageId = None,
                                             message = getMessageFromError e err\<rparr>\<rparr>) m1, w1)
              | (Inr rsp, m1, w1) \<Rightarrow>
                  (let fromCache = getSceneFromCache m1 (uid options);
                       rspVersion = (case rsp of None \<Rightarrow> None | Some r \<Rightarrow> dto_version (dashboard r))
                   in if (case fromCache of None \<Rightarrow> False
                                          | Some scene \<Rightarrow> scene_version scene = rspVersion)
                      then (setState (\<lambda>s. s\<lparr>st_isLoading := Some False\<rparr>) m1, w1)
                      else
                        (case rsp of
                           None \<Rightarrow>
                             (setState (\<lambda>s. s\<lparr>st_isLoading := Some False,
                                  st_loadError := Some \<lparr>status = Some 404, messageId = None,
                                                        message = ''Dashboard not found''\<rparr>\<rparr>) m1, w1)
                         | Some r \<Rightarrow>
                             (case transformSaveModelToScene e r of
                                Inl err \<Rightarrow>
                                  (setState (\<lambda>s. s\<lparr>st_isLoading := Some False,
                                       st_loadError := Some \<lparr>status = getStatusFromError e err,
                                          messageId = None,
                                          message = getMessageFromError e err\<rparr>\<rparr>) m1, w1)
                              | Inr scene \<Rightarrow>
                                  (setState (\<lambda>s. s\<lparr>st_dashboard := Some scene,
                                       st_isLoading := Some False, st_options := Some options\<rparr>)
                                     (setSceneCache (uid options) scene m1), w1)))))))"

subsection \<open>DashboardScenePageStateManagerV2\<close>

type_synonym ManagerV2 = "DashboardWithAccessInfo ManagerBase"

text \<open>\<open>AnnoKeyFolder\<close> of app/features/apiserver/types.\<close>

definition AnnoKeyFolder :: string where
  "AnnoKeyFolder = ''grafana.app/folder''"

definition loadSnapshotSceneV2 ::
  "env \<Rightarrow> string \<Rightarrow> ManagerV2 \<Rightarrow> world \<Rightarrow> (error + DashboardScene) \<times> ManagerV2 \<times> world" where
  "loadSnapshotSceneV2 e sl m w =
     (let w1 = perform e (LoaderV2LoadSnapshot sl) w in
      case loaderV2LoadSnapshot e w sl of
        Inl err \<Rightarrow> (Inl err, m, w1)
      | Inr None \<Rightarrow> (Inl (Error ''Snapshot not found''), m, w1)
      | Inr (Some rsp) \<Rightarrow>
          (case transformSaveModelSchemaV2ToScene e rsp of
             Inl err \<Rightarrow> (Inl err, m, w1)
           | Inr scene \<Rightarrow> (Inr scene, m, w1)))"

text \<open>The cached scene is compared with \<open>rsp?.metadata.generation\<close>.\<close>

definition transformResponseToSceneV2 ::
  "env \<Rightarrow> DashboardWithAccessInfo option \<Rightarrow> LoadDashboardOptions \<Rightarrow> ManagerV2
   \<Rightarrow> (error + DashboardScene option) \<times> ManagerV2" where
  "transformResponseToSceneV2 e rsp options m =
     (let fromCache = getSceneFromCache m (uid options);
          rspVersion = (case rsp of None \<Rightarrow> None | Some r \<Rightarrow> generation (metadata r))
      in if (case fromCache of None \<Rightarrow> False | Some scene \<Rightarrow> scene_version scene = rspVersion)
         then (Inr fromCache, m)
         else buildAndCacheScene (transformSaveModelSchemaV2ToScene e) rsp options m)"

text \<open>\<open>reloadDashboard\<close> of the v2 manager throws.\<close>

definition reloadDashboardV2 ::
  "env \<Rightarrow> Params option \<Rightarrow> ManagerV2 \<Rightarrow> world \<Rightarrow> (error + unit) \<times> ManagerV2 \<times> world" where
  "reloadDashboardV2 e ps m w = (Inl (Error ''Method not implemented.''), m, w)"

text \<open>
  The switch of the v2 \<open>fetchDashboard\<close>. There is no Provisioning case; the Embedded
  route throws after the load.
\<close>

definition fetchDashboardV2_switch ::
  "env \<Rightarrow> LoadDashboardOptions \<Rightarrow> world
   \<Rightarrow> (error + DashboardWithAccessInfo option + DashboardWithAccessInfo) \<times> world" where
  "fetchDashboardV2_switch e options w =
     (case route options of
        New \<Rightarrow>
          (let w1 = perform e (BuildNewDashboardSaveModelV2 (urlFolderUid options)) w in
           case buildNewDashboardSaveModelV2 e w (urlFolderUid options) of
             Inl err \<Rightarrow> (Inl err, w1)
           | Inr rsp \<Rightarrow> (Inr (Inr rsp), w1))
      | Home \<Rightarrow>
          (let w1 = perform e GetHomeDashboard w in
           case getHomeDashboard e w of
             Inl err \<Rightarrow> (Inl err, w1)
           | Inr (HomeDashboardRedirectDTO redirectUri) \<Rightarrow>
               (Inr (Inl None), locationReplace e (stripBaseFromUrl e redirectUri) w1)
           | Inr (HomeDashboardV2Resource dto) \<Rightarrow>
               (Inr (Inr (dto\<lparr>access := (access dto)\<lparr>access_canSave := Some False,
                             access_canShare := Some False, access_canStar := Some False\<rparr>\<rparr>)), w1)
           | Inr _ \<Rightarrow> (Inl (Error ''Custom home dashboard is not a v2 spec''), w1))
      | Public \<Rightarrow>
          (let w1 = perform e (LoaderV2LoadDashboard ''public'' (Some []) (uid options) None) w in
           case loaderV2LoadDashboard e w ''public'' (Some []) (uid options) None of
             Inl err \<Rightarrow> (Inl err, w1)
           | Inr rsp \<Rightarrow> (Inr (Inl (Some rsp)), w1))
      | _ \<Rightarrow>
          (let qp = map_option queryParams (params options);
               ty = orElse (dbtype options) ''db'';
               sl = Some (orElse (slug options) []);
               w1 = perform e (LoaderV2LoadDashboard ty sl (uid options) qp) w in
           case loaderV2LoadDashboard e w ty sl (uid options) qp of
             Inl err \<Rightarrow> (Inl err, w1)
           | Inr rsp \<Rightarrow>
               if route options = Embedded then (Inl (Error ''Method not implemented.''), w1)
               else (Inr (Inr rsp), w1)))"

definition fetchDashboardV2_finish ::
  "env \<Rightarrow> LoadDashboardOptions \<Rightarrow> string \<Rightarrow> DashboardWithAccessInfo \<Rightarrow> ManagerV2 \<Rightarrow> world
   \<Rightarrow> (error + DashboardWithAccessInfo option) \<times> ManagerV2 \<times> world" where
  "fetchDashboardV2_finish e options key rsp m w =
     (let w1 = (if truthy (access_url (access rsp)) \<and> route options = Normal
                then (let dashboardUrl = stripBaseFromUrl e (the (access_url (access rsp))) in
                      if dashboardUrl \<noteq> pathname w then locationReplace e dashboardUrl w else w)
                else w);
          folder = annotations (metadata rsp) AnnoKeyFolder
      in if truthy folder
         then (let w2 = perform e (UpdateNavModel (the folder)) w1 in
               case updateNavModel e w1 (the folder) of
                 Some err \<Rightarrow> (Inl err, m, w2)
               | None \<Rightarrow> (Inr (Some rsp), setDashboardCache (clock w2) key rsp m, w2))
         else (Inr (Some rsp), setDashboardCache (clock w1) key rsp m, w1))"

definition fetchDashboardV2_try ::
  "env \<Rightarrow> LoadDashboardOptions \<Rightarrow> string \<Rightarrow> ManagerV2 \<Rightarrow> world
   \<Rightarrow> (error + DashboardWithAccessInfo option) \<times> ManagerV2 \<times> world" where
  "fetchDashboardV2_try e options key m w =
     (case fetchDashboardV2_switch e options w of
        (Inl err, w1) \<Rightarrow> (Inl err, m, w1)
      | (Inr (Inl r), w1) \<Rightarrow> (Inr r, m, w1)
      | (Inr (Inr rsp), w1) \<Rightarrow> fetchDashboardV2_finish e options key rsp m w1)"

definition fetchDashboardV2 ::
  "env \<Rightarrow> LoadDashboardOptions \<Rightarrow> ManagerV2 \<Rightarrow> world
   \<Rightarrow> (error + DashboardWithAccessInfo option) \<times> ManagerV2 \<times> world" where
  "fetchDashboardV2 e options m w0 =
     (let w = w0\<lparr>trace := trace w0 @ [FetchDashboard V2 options]\<rparr>;
          key = cacheKeyOf options;
          cachedDashboard =
            (if params options = None then getDashboardFromCache (clock w) m key else None)
      in case cachedDashboard of
           Some d \<Rightarrow> (Inr (Some d), m, w)
         | None \<Rightarrow>
             (case fetchDashboardV2_try e options key m w of
                (Inl err, m1, w1) \<Rightarrow>
                  if isFetchError err \<and> cancelled err then (Inr None, m1, w1) else (Inl err, m1, w1)
              | (Inr r, m1, w1) \<Rightarrow> (Inr r, m1, w1)))"

subsection \<open>UnifiedDashboardScenePageStateManager\<close>

text \<open>
  The unified manager is a manager itself (its own state and caches) and owns one v1 and
  one v2 manager; \<open>activeManager\<close> refers to one of the two.
\<close>

record Unified = "(DashboardDTO + DashboardWithAccessInfo) ManagerBase" +
  v1Manager :: ManagerV1
  v2Manager :: ManagerV2
  activeManager :: ManagerVersion

text \<open>The constructor: the active manager starts as the v1 manager.\<close>

definition newUnified :: Unified where
  "newUnified =
     \<lparr>state = initialState, cache = Map.empty, dashboardCache = None,
      v1Manager = newManager, v2Manager = newManager, activeManager = V1\<rparr>"

text \<open>
  An operation \<open>(manager) => Promise<T>\<close> calls a method of the manager it is given: it is
  the pair of the method's v1 and v2 implementations. \<open>onManager\<close> runs it on the chosen
  manager of the unified manager.
\<close>

fun onManager ::
  "(ManagerV1 \<Rightarrow> world \<Rightarrow> (error + 'a) \<times> ManagerV1 \<times> world)
   \<Rightarrow> (ManagerV2 \<Rightarrow> world \<Rightarrow> (error + 'a) \<times> ManagerV2 \<times> world)
   \<Rightarrow> ManagerVersion \<Rightarrow> Unified \<Rightarrow> world \<Rightarrow> (error + 'a) \<times> Unified \<times> world" where
  "onManager op1 op2 V1 u w =
     (case op1 (v1Manager u) w of (r, m, w1) \<Rightarrow> (r, u\<lparr>v1Manager := m\<rparr>, w1))"
| "onManager op1 op2 V2 u w =
     (case op2 (v2Manager u) w of (r, m, w1) \<Rightarrow> (r, u\<lparr>v2Manager := m\<rparr>, w1))"

text \<open>\<open>this.activeManager.state\<close>.\<close>

definition activeState :: "Unified \<Rightarrow> DashboardScenePageState" where
  "activeState u = (case activeManager u of V1 \<Rightarrow> state (v1Manager u) | V2 \<Rightarrow> state (v2Manager u))"

text \<open>
  \<open>this.setState(this.activeManager.state)\<close>: the fields the active manager's state
  holds overwrite those of the unified manager; the others stay.
\<close>

definition mergeState :: "DashboardScenePageState \<Rightarrow> DashboardScenePageState \<Rightarrow> DashboardScenePageState" where
  "mergeState upd s =
     \<lparr>st_dashboard = (case st_dashboard upd of None \<Rightarrow> st_dashboard s | Some x \<Rightarrow> Some x),
      st_options = (case st_options upd of None \<Rightarrow> st_options s | Some x \<Rightarrow> Some x),
      st_isLoading = (case st_isLoading upd of None \<Rightarrow> st_isLoading s | Some x \<Rightarrow> Some x),
      st_loadError = (case st_loadError upd of None \<Rightarrow> st_loadError s | Some x \<Rightarrow> Some x)\<rparr>"

text \<open>\<open>error.data.storedVersion === 'v2alpha1' ? this.v2Manager : this.v1Manager\<close>.\<close>

definition managerFor :: "string \<Rightarrow> ManagerVersion" where
  "managerFor storedVersion = (if storedVersion = ''v2alpha1'' then V2 else V1)"

text \<open>
  \<open>withVersionHandling(operation)\<close>: the operation runs on the active manager; a
  \<open>DashboardVersionError\<close> makes the manager of the stored version the active one and
  runs the operation once more, outside any \<open>try\<close>; every other error is rethrown.
\<close>

definition withVersionHandling ::
  "(ManagerV1 \<Rightarrow> world \<Rightarrow> (error + 'a) \<times> ManagerV1 \<times> world)
   \<Rightarrow> (ManagerV2 \<Rightarrow> world \<Rightarrow> (error + 'a) \<times> ManagerV2 \<times> world)
   \<Rightarrow> Unified \<Rightarrow> world \<Rightarrow> (error + 'a) \<times> Unified \<times> world" where
  "withVersionHandling op1 op2 u w =
     (case onManager op1 op2 (activeManager u) u w of
        (Inr result, u1, w1) \<Rightarrow> (Inr result, setState (mergeState (activeState u1)) u1, w1)
      | (Inl (DashboardVersionError storedVersion), u1, w1) \<Rightarrow>
          (let manager = managerFor storedVersion in
           onManager op1 op2 manager (u1\<lparr>activeManager := manager\<rparr>) w1)
      | (Inl err, u1, w1) \<Rightarrow> (Inl err, u1, w1))"

text \<open>The result of a manager's method, seen at the union type of the unified manager.\<close>

definition asV1 ::
  "(error + DashboardDTO option) \<times> ManagerV1 \<times> world
   \<Rightarrow> (error + (DashboardDTO + DashboardWithAccessInfo) option) \<times> ManagerV1 \<times> world" where
  "asV1 x = (case x of (r, m, w) \<Rightarrow> (map_sum id (map_option Inl) r, m, w))"

definition asV2 ::
  "(error + DashboardWithAccessInfo option) \<times> ManagerV2 \<times> world
   \<Rightarrow> (error + (DashboardDTO + DashboardWithAccessInfo) option) \<times> ManagerV2 \<times> world" where
  "asV2 x = (case x of (r, m, w) \<Rightarrow> (map_sum id (map_option Inr) r, m, w))"

definition fetchDashboardUnified ::
  "env \<Rightarrow> LoadDashboardOptions \<Rightarrow> Unified \<Rightarrow> world
   \<Rightarrow> (error + (DashboardDTO + DashboardWithAccessInfo) option) \<times> Unified \<times> world" where
  "fetchDashboardUnified e options =
     withVersionHandling (\<lambda>m w. asV1 (fetchDashboard e options m w))
                         (\<lambda>m w. asV2 (fetchDashboardV2 e options m w))"

definition reloadDashboardUnified ::
  "env \<Rightarrow> Params option \<Rightarrow> Unified \<Rightarrow> world \<Rightarrow> (error + unit) \<times> Unified \<times> world" where
  "reloadDashboardUnified e ps =
     withVersionHandling (\<lambda>m w. case reloadDashboard e ps m w of (m1, w1) \<Rightarrow> (Inr (), m1, w1))
                         (reloadDashboardV2 e ps)"

definition loadSnapshotUnified ::
  "env \<Rightarrow> string \<Rightarrow> Unified \<Rightarrow> world \<Rightarrow> (error + unit) \<times> Unified \<times> world" where
  "loadSnapshotUnified e sl =
     withVersionHandling
       (\<lambda>m w. case loadSnapshot e (loadSnapshotScene e) sl m w of (m1, w1) \<Rightarrow> (Inr (), m1, w1))
       (\<lambda>m w. case loadSnapshot e (loadSnapshotSceneV2 e) sl m w of (m1, w1) \<Rightarrow> (Inr (), m1, w1))"

definition getDashboardFromCacheUnified ::
  "int \<Rightarrow> Unified \<Rightarrow> string \<Rightarrow> (DashboardDTO + DashboardWithAccessInfo) option" where
  "getDashboardFromCacheUnified now u k =
     (case activeManager u of
        V1 \<Rightarrow> map_option Inl (getDashboardFromCache now (v1Manager u) k)
      | V2 \<Rightarrow> map_option Inr (getDashboardFromCache now (v2Manager u) k))"

text \<open>
  \<open>transformResponseToScene\<close> of the unified manager: \<open>null\<close> gives \<open>null\<close>; a v2
  resource makes the v2 manager the active one before it is transformed; a v1 response
  goes to the v1 manager.
\<close>

definition transformResponseToSceneUnified ::
  "env \<Rightarrow> (DashboardDTO + DashboardWithAccessInfo) option \<Rightarrow> LoadDashboardOptions \<Rightarrow> Unified
   \<Rightarrow> (error + DashboardScene option) \<times> Unified" where
  "transformResponseToSceneUnified e rsp options u =
     (case rsp of
        None \<Rightarrow> (Inr None, u)
      | Some (Inr r2) \<Rightarrow>
          (case transformResponseToSceneV2 e (Some r2) options (v2Manager u) of
             (r, m) \<Rightarrow> (r, u\<lparr>v2Manager := m, activeManager := V2\<rparr>))
      | Some (Inl r1) \<Rightarrow>
          (case transformResponseToScene e (Some r1) options (v1Manager u) of
             (r, m) \<Rightarrow> (r, u\<lparr>v1Manager := m\<rparr>)))"

section \<open>The history read query (resource\_history\_get, read object history)\<close>

text \<open>
  A row of \<open>resource_history\<close>, with the eight columns the query selects. The table is
  the list of its rows in storage order.
\<close>

record ResourceHistoryRow =
  rh_guid :: string
  rh_resource_version :: int
  rh_namespace :: string
  rh_group :: string
  rh_resource :: string
  rh_name :: string
  rh_folder :: "string option"
  rh_value :: string

text \<open>
  \<open>ORDER BY c DESC\<close>: the rows by decreasing \<open>c\<close>. SQL leaves the order of rows with
  equal \<open>c\<close> open; here they keep their order.
\<close>

definition order_by_desc :: "('r \<Rightarrow> int) \<Rightarrow> 'r list \<Rightarrow> 'r list" where
  "order_by_desc c rows = sort_key (\<lambda>r. - c r) rows"

subsection \<open>The query for any identity\<close>

text \<open>\<open>ResourceIdentity\<close>: namespace, group, resource and name.\<close>

record ResourceIdentity =
  id_namespace :: string
  id_group :: string
  id_resource :: string
  id_name :: string

text \<open>
  Modelled from the spec: the SQL template of the history read and the storage code that
  renders and runs it are missing from the sources, which hold one rendering of the
  template only (below). The identity predicate of the spec's query shape,
  \<open>WHERE namespace = ? AND group = ? AND resource = ? AND name = ?\<close>.
\<close>

definition identity_where :: "ResourceIdentity \<Rightarrow> ResourceHistoryRow \<Rightarrow> bool" where
  "identity_where i r \<longleftrightarrow>
     rh_namespace r = id_namespace i
     \<and> rh_group r = id_group i
     \<and> rh_resource r = id_resource i
     \<and> rh_name r = id_name i"

text \<open>
  Modelled from the spec: the query template is missing from the sources. The spec's query
  shape,
  \<open>SELECT guid, resource_version, namespace, group, resource, name, folder, value
     FROM resource_history
     WHERE namespace = ? AND group = ? AND resource = ? AND name = ?
       [AND resource_version = ?]
     ORDER BY resource_version DESC [LIMIT ?]\<close>,
  with the optional exact-version predicate and the optional limit as options.
\<close>

definition resource_history_query ::
  "ResourceIdentity \<Rightarrow> int option \<Rightarrow> nat option \<Rightarrow> ResourceHistoryRow list
   \<Rightarrow> ResourceHistoryRow list" where
  "resource_history_query i version limit resource_history =
     (let selected =
            filter (\<lambda>r. identity_where i r
                         \<and> (case version of None \<Rightarrow> True | Some v \<Rightarrow> rh_resource_version r = v))
                   resource_history;
          ordered = order_by_desc rh_resource_version selected
      in case limit of None \<Rightarrow> ordered | Some n \<Rightarrow> take n ordered)"

text \<open>
  Modelled from the spec: the store's \<open>ListHistory\<close> is missing from the sources. It is
  the query for the identity without the version predicate; the whole history is the
  listing without a limit.
\<close>

definition ListHistory :: "ResourceIdentity \<Rightarrow> ResourceHistoryRow list \<Rightarrow> ResourceHistoryRow list" where
  "ListHistory i resource_history = resource_history_query i None None resource_history"

subsection \<open>The rendered query of the sources\<close>

text \<open>
  The one rendering in the sources, for the identity ('nn', 'gg', 'rr', 'name'). Its
  \<open>WHERE\<close> clause:
  \<open>1 = 1 AND "namespace" = 'nn' AND "group" = 'gg' AND "resource" = 'rr' AND "name" = 'name'\<close>.
\<close>

definition resource_history_where :: "ResourceHistoryRow \<Rightarrow> bool" where
  "resource_history_where r \<longleftrightarrow>
     (1::int) = 1
     \<and> rh_namespace r = ''nn''
     \<and> rh_group r = ''gg''
     \<and> rh_resource r = ''rr''
     \<and> rh_name r = ''name''"

text \<open>
  \<open>SELECT "guid", "resource_version", "namespace", "group", "resource", "name", "folder",
     "value" FROM "resource_history" WHERE ... ORDER BY "resource_version" DESC\<close>.
\<close>

definition resource_history_get :: "ResourceHistoryRow list \<Rightarrow> ResourceHistoryRow list" where
  "resource_history_get resource_history =
     order_by_desc rh_resource_version (filter resource_history_where resource_history)"

text \<open>The identity of the rendering.\<close>

definition renderedIdentity :: ResourceIdentity where
  "renderedIdentity =
     \<lparr>id_namespace = ''nn'', id_group = ''gg'', id_resource = ''rr'', id_name = ''name''\<rparr>"

section \<open>The dashboard manifest (dashboard\_manifest.go)\<close>

text \<open>
  \<open>resource.Kind\<close> is a schema and a map of codecs by encoding; its zero value has
  neither. The schema holds what \<open>resource.NewSimpleSchema\<close> is given.
\<close>

record Schema =
  schema_group :: string
  schema_version :: string
  schema_kind :: string
  schema_plural :: string
  schema_scope :: string

record Kind =
  kind_Schema :: "Schema option"
  kind_Codecs :: "(string \<times> string) list"

definition zeroKind :: Kind where
  "zeroKind = \<lparr>kind_Schema = None, kind_Codecs = []\<rparr>"

text \<open>\<open>v0alpha1.DashboardKind()\<close>.\<close>

definition v0alpha1_DashboardKind :: Kind where
  "v0alpha1_DashboardKind =
     \<lparr>kind_Schema = Some \<lparr>schema_group = ''dashboard.grafana.app'', schema_version = ''v0alpha1'',
                          schema_kind = ''Dashboard'', schema_plural = ''dashboards'',
                          schema_scope = ''Namespaced''\<rparr>,
      kind_Codecs = [(''json'', ''DashboardJSONCodec'')]\<rparr>"

text \<open>
  The packages v1beta1, v2alpha1 and v2alpha2 are imported by the manifest; what their
  \<open>DashboardKind()\<close> return is a parameter.
\<close>

record KindPackages =
  v1beta1_DashboardKind :: Kind
  v2alpha1_DashboardKind :: Kind
  v2alpha2_DashboardKind :: Kind

text \<open>\<open>appManifestData.Kinds\<close>: each kind with the names of its versions.\<close>

definition appManifestData_Kinds :: "(string \<times> string list) list" where
  "appManifestData_Kinds = [(''Dashboard'', [''v0alpha1'', ''v1beta1'', ''v2alpha1'', ''v2alpha2''])]"

text \<open>The (kind, version) pairs the manifest declares.\<close>

definition manifestKindVersions :: "(string \<times> string) list" where
  "manifestKindVersions = concat (map (\<lambda>(k, vs). map (\<lambda>v. (k, v)) vs) appManifestData_Kinds)"

text \<open>The package variable \<open>kindVersionToGoType\<close>, a map literal.\<close>

definition kindVersionToGoType :: "KindPackages \<Rightarrow> (string \<times> Kind) list" where
  "kindVersionToGoType p =
     [(''Dashboard/v0alpha1'', v0alpha1_DashboardKind),
      (''Dashboard/v1beta1'', v1beta1_DashboardKind p),
      (''Dashboard/v2alpha1'', v2alpha1_DashboardKind p),
      (''Dashboard/v2alpha2'', v2alpha2_DashboardKind p)]"

text \<open>
  \<open>ManifestGoTypeAssociator(kind, version)\<close> reads the package variable, here the first
  argument, with the key \<open>fmt.Sprintf("%s/%s", kind, version)\<close>; a missing key gives the
  zero value and \<open>false\<close>. The variable is returned as the call leaves it.
\<close>

definition ManifestGoTypeAssociator ::
  "(string \<times> Kind) list \<Rightarrow> string \<Rightarrow> string \<Rightarrow> (Kind \<times> bool) \<times> (string \<times> Kind) list" where
  "ManifestGoTypeAssociator registry kind version =
     (case map_of registry (kind @ ''/'' @ version) of
        Some goType \<Rightarrow> ((goType, True), registry)
      | None \<Rightarrow> ((zeroKind, False), registry))"

text \<open>The Kind the manifest's packages give for a declared pair.\<close>

definition declaredKind :: "KindPackages \<Rightarrow> string \<Rightarrow> Kind" where
  "declaredKind p version =
     (if version = ''v0alpha1'' then v0alpha1_DashboardKind
      else if version = ''v1beta1'' then v1beta1_DashboardKind p
      else if version = ''v2alpha1'' then v2alpha1_DashboardKind p
      else v2alpha2_DashboardKind p)"

section \<open>Sample inputs\<close>

text \<open>Concrete collaborators, responses and options on which the model is evaluated.\<close>

definition sampleDTO :: DashboardDTO where
  "sampleDTO =
     \<lparr>dashboard = \<lparr>dto_version = Some 1, dto_title = ''Sample''\<rparr>,
      meta = \<lparr>url = None, folderUid = None, canSave = Some True, canShare = Some True,
              canStar = Some True, isEmbedded = None\<rparr>\<rparr>"

definition sampleV2 :: DashboardWithAccessInfo where
  "sampleV2 =
     \<lparr>spec = ''Sample'',
      metadata = \<lparr>generation = Some 1, annotations = Map.empty\<rparr>,
      access = \<lparr>access_url = None, access_canSave = Some True, access_canShare = Some True,
                access_canStar = Some True\<rparr>\<rparr>"

text \<open>The error helpers, as app/core/utils/errors reads the fields of an error.\<close>

fun sampleStatus :: "error \<Rightarrow> int option" where
  "sampleStatus (FetchError s _ _ _) = Some s"
| "sampleStatus _ = None"

fun sampleMessage :: "error \<Rightarrow> string" where
  "sampleMessage (FetchError _ _ _ msg) = msg"
| "sampleMessage (DashboardVersionError v) = ''Dashboard is stored as '' @ v"
| "sampleMessage (Error msg) = msg"

fun sampleMessageId :: "error \<Rightarrow> string option" where
  "sampleMessageId (FetchError _ _ i _) = i"
| "sampleMessageId _ = None"

text \<open>
  An environment in which every load succeeds with the sample responses and every call
  takes 10 ms.
\<close>

definition sampleEnv :: env where
  "sampleEnv =
     \<lparr>buildNewDashboardSaveModel = (\<lambda>w f. Inr sampleDTO),
      buildNewDashboardSaveModelV2 = (\<lambda>w f. Inr sampleV2),
      getHomeDashboard = (\<lambda>w. Inr (HomeDashboardDTO sampleDTO)),
      loaderLoadDashboard = (\<lambda>w ty sl u q. Inr sampleDTO),
      loaderV2LoadDashboard = (\<lambda>w ty sl u q. Inr sampleV2),
      loaderLoadSnapshot = (\<lambda>w sl. Inr (Some sampleDTO)),
      loaderV2LoadSnapshot = (\<lambda>w sl. Inr (Some sampleV2)),
      updateNavModel = (\<lambda>w f. None),
      transformSaveModelToScene =
        (\<lambda>d. Inr \<lparr>scene_version = dto_version (dashboard d), scene_body = dto_title (dashboard d)\<rparr>),
      transformSaveModelSchemaV2ToScene =
        (\<lambda>d. Inr \<lparr>scene_version = generation (metadata d), scene_body = spec d\<rparr>),
      stripBaseFromUrl = (\<lambda>u. u),
      getStatusFromError = sampleStatus,
      getMessageFromError = sampleMessage,
      getMessageIdFromError = sampleMessageId,
      preserveDashboardStateWhenNavigating = False,
      hasQueryController = (\<lambda>s. False),
      elapsed = (\<lambda>c. 10)\<rparr>"

text \<open>The stored dashboard is a v2 dashboard: the v1 loader raises the version error.\<close>

definition storedAsV2Env :: env where
  "storedAsV2Env =
     sampleEnv\<lparr>loaderLoadDashboard := (\<lambda>w ty sl u q. Inl (DashboardVersionError ''v2alpha1''))\<rparr>"

text \<open>As before, and the v2 loader fails with a server error.\<close>

definition storedAsV2FailingEnv :: env where
  "storedAsV2FailingEnv =
     storedAsV2Env\<lparr>loaderV2LoadDashboard :=
       (\<lambda>w ty sl u q. Inl (FetchError 500 False None ''Internal Server Error''))\<rparr>"

text \<open>Both loaders raise the version error, each naming the other version.\<close>

definition chainedMismatchEnv :: env where
  "chainedMismatchEnv =
     storedAsV2Env\<lparr>loaderV2LoadDashboard := (\<lambda>w ty sl u q. Inl (DashboardVersionError ''v1''))\<rparr>"

text \<open>The v1 loader raises the version error with a stored version other than 'v2alpha1'.\<close>

definition storedAsV2alpha2Env :: env where
  "storedAsV2alpha2Env =
     sampleEnv\<lparr>loaderLoadDashboard := (\<lambda>w ty sl u q. Inl (DashboardVersionError ''v2alpha2''))\<rparr>"

text \<open>A unified manager whose active manager is the v2 manager.\<close>

definition v2ActiveUnified :: Unified where
  "v2ActiveUnified =
     \<lparr>state = initialState, cache = Map.empty, dashboardCache = None,
      v1Manager = newManager, v2Manager = newManager, activeManager = V2\<rparr>"

text \<open>The v1 loader's request is cancelled.\<close>

definition cancelledEnv :: env where
  "cancelledEnv =
     sampleEnv\<lparr>loaderLoadDashboard := (\<lambda>w ty sl u q. Inl (FetchError 0 True None ''Request was aborted''))\<rparr>"

text \<open>The v1 loader answers 404 with a message identifier.\<close>

definition notFoundEnv :: env where
  "notFoundEnv =
     sampleEnv\<lparr>loaderLoadDashboard :=
       (\<lambda>w ty sl u q. Inl (FetchError 404 False (Some ''dashboards.notFound'') ''Dashboard not found''))\<rparr>"

definition world0 :: world where
  "world0 = \<lparr>clock = 1000, trace = [], pathname = ''/d/abc''\<rparr>"

definition normalOptions :: LoadDashboardOptions where
  "normalOptions =
     \<lparr>uid = ''abc'', route = Normal, slug = None, dbtype = None, urlFolderUid = None,
      params = None\<rparr>"

text \<open>The options of \<open>/dashboard/new\<close>: the New route and an empty uid.\<close>

definition newOptions :: LoadDashboardOptions where
  "newOptions =
     \<lparr>uid = [], route = New, slug = None, dbtype = None, urlFolderUid = None, params = None\<rparr>"

definition sampleParams :: Params where
  "sampleParams =
     \<lparr>params_version = 1, params_scopes = [''scope1''],
      params_timeRange = \<lparr>tr_from = ''now-6h'', tr_to = ''now''\<rparr>,
      params_variables = [''var-env'' \<mapsto> UStr ''prod'']\<rparr>"

text \<open>A v1 manager that has loaded \<open>normalOptions\<close> with \<open>sampleParams\<close>.\<close>

definition loadedManager :: ManagerV1 where
  "loadedManager =
     \<lparr>state = initialState\<lparr>st_options := Some (normalOptions\<lparr>params := Some sampleParams\<rparr>),
                            st_isLoading := Some False\<rparr>,
      cache = Map.empty, dashboardCache = None\<rparr>"

definition dashboardIdentity :: ResourceIdentity where
  "dashboardIdentity =
     \<lparr>id_namespace = ''default'', id_group = ''dashboard.grafana.app'',
      id_resource = ''dashboards'', id_name = ''abc''\<rparr>"

definition rowOf :: "ResourceIdentity \<Rightarrow> int \<Rightarrow> ResourceHistoryRow" where
  "rowOf i v =
     \<lparr>rh_guid = ''g'', rh_resource_version = v, rh_namespace = id_namespace i,
      rh_group = id_group i, rh_resource = id_resource i, rh_name = id_name i,
      rh_folder = None, rh_value = ''{}''\<rparr>"

definition sampleRow :: "int \<Rightarrow> ResourceHistoryRow" where
  "sampleRow v =
     \<lparr>rh_guid = ''g'', rh_resource_version = v, rh_namespace = ''nn'', rh_group = ''gg'',
      rh_resource = ''rr'', rh_name = ''name'', rh_folder = None, rh_value = ''{}''\<rparr>"

definition sampleKind :: "string \<Rightarrow> Kind" where
  "sampleKind v =
     \<lparr>kind_Schema = Some \<lparr>schema_group = ''dashboard.grafana.app'', schema_version = v,
                          schema_kind = ''Dashboard'', schema_plural = ''dashboards'',
                          schema_scope = ''Namespaced''\<rparr>,
      kind_Codecs = [(''json'', ''DashboardJSONCodec'')]\<rparr>"

definition samplePackages :: KindPackages where
  "samplePackages =
     \<lparr>v1beta1_DashboardKind = sampleKind ''v1beta1'',
      v2alpha1_DashboardKind = sampleKind ''v2alpha1'',
      v2alpha2_DashboardKind = sampleKind ''v2alpha2''\<rparr>"

text \<open>Parameters that differ from \<open>sampleParams\<close> in the scopes, in a variable, and in the version and the time range only.\<close>

definition changedScopes :: Params where
  "changedScopes = sampleParams\<lparr>params_scopes := [''scope2'']\<rparr>"

definition changedVariables :: Params where
  "changedVariables = sampleParams\<lparr>params_variables := [''var-env'' \<mapsto> UStr ''dev'']\<rparr>"

definition laterParams :: Params where
  "laterParams = sampleParams\<lparr>params_version := 2,
                   params_timeRange := \<lparr>tr_from = ''now-1h'', tr_to = ''now''\<rparr>\<rparr>"


section \<open>Observations on a run\<close>

text \<open>The entries into \<open>fetchDashboard\<close> that a trace records, in order.\<close>

fun fetchCalls :: "call list \<Rightarrow> (ManagerVersion \<times> LoadDashboardOptions) list" where
  "fetchCalls [] = []"
| "fetchCalls (FetchDashboard v options # cs) = (v, options) # fetchCalls cs"
| "fetchCalls (_ # cs) = fetchCalls cs"

text \<open>
  The requests for a dashboard that a trace records: the calls that build, or load from
  the backend, the response of \<open>fetchDashboard\<close>.
\<close>

fun isLoadRequest :: "call \<Rightarrow> bool" where
  "isLoadRequest (BuildNewDashboardSaveModel _) = True"
| "isLoadRequest (BuildNewDashboardSaveModelV2 _) = True"
| "isLoadRequest GetHomeDashboard = True"
| "isLoadRequest (LoaderLoadDashboard _ _ _ _) = True"
| "isLoadRequest (LoaderV2LoadDashboard _ _ _ _) = True"
| "isLoadRequest _ = False"

definition loadRequests :: "call list \<Rightarrow> call list" where
  "loadRequests cs = filter isLoadRequest cs"

text \<open>
  The v1 \<open>fetchDashboard\<close>, started on manager \<open>m\<close> in world \<open>w\<close>, does not answer
  from the raw-response cache, and its \<open>try\<close> block raises a cancelled fetch error.
\<close>

definition raisesCancelled :: "env \<Rightarrow> LoadDashboardOptions \<Rightarrow> ManagerV1 \<Rightarrow> world \<Rightarrow> bool" where
  "raisesCancelled e options m w =
     (let w1 = w\<lparr>trace := trace w @ [FetchDashboard V1 options]\<rparr> in
      (params options \<noteq> None \<or> getDashboardFromCache (clock w1) m (cacheKeyOf options) = None)
      \<and> (case fst (fetchDashboard_try e options (cacheKeyOf options) m w1) of
            Inl err \<Rightarrow> isFetchError err \<and> cancelled err
          | Inr _ \<Rightarrow> False))"

text \<open>The stored version a result carries when it is a \<open>DashboardVersionError\<close>.\<close>

fun versionError :: "error + 'a \<Rightarrow> string option" where
  "versionError (Inl (DashboardVersionError storedVersion)) = Some storedVersion"
| "versionError _ = None"

text \<open>The first attempt of the unified \<open>fetchDashboard\<close>: the fetch through the active manager.\<close>

definition firstAttempt ::
  "env \<Rightarrow> LoadDashboardOptions \<Rightarrow> Unified \<Rightarrow> world
   \<Rightarrow> (error + (DashboardDTO + DashboardWithAccessInfo) option) \<times> Unified \<times> world" where
  "firstAttempt e options u w =
     onManager (\<lambda>m w. asV1 (fetchDashboard e options m w))
               (\<lambda>m w. asV2 (fetchDashboardV2 e options m w)) (activeManager u) u w"

text \<open>
  A second attempt through the manager \<open>manager\<close>, made the active one, from where the
  first attempt left the managers and the world.
\<close>

definition fallbackAttempt ::
  "env \<Rightarrow> LoadDashboardOptions \<Rightarrow> ManagerVersion \<Rightarrow> Unified \<Rightarrow> world
   \<Rightarrow> (error + (DashboardDTO + DashboardWithAccessInfo) option) \<times> Unified \<times> world" where
  "fallbackAttempt e options manager u w =
     (case firstAttempt e options u w of
        (r, u1, w1) \<Rightarrow>
          onManager (\<lambda>m w. asV1 (fetchDashboard e options m w))
                    (\<lambda>m w. asV2 (fetchDashboardV2 e options m w))
                    manager (u1\<lparr>activeManager := manager\<rparr>) w1)"

text \<open>The content-relevant parameters of a reload are equal to those of the last load.\<close>

definition sameContentParams :: "Params option \<Rightarrow> Params option \<Rightarrow> bool" where
  "sameContentParams p q \<longleftrightarrow>
     map_option params_variables p = map_option params_variables q
     \<and> map_option params_scopes p = map_option params_scopes q"

section \<open>The raw-response cache\<close>

text \<open>
  Claim C4. \<open>getDashboardFromCache(k)\<close> returns the stored response exactly when an
  entry exists, its \<open>cacheKey\<close> is \<open>k\<close> and its age \<open>now - ts\<close> is strictly below the
  TTL of 500 ms; in every other case it returns \<open>null\<close>. The function reads the entry and
  the clock only: it takes no world and returns none, so it performs no call at all.
\<close>

theorem getDashboardFromCache_hit_iff:
  "DASHBOARD_CACHE_TTL = 500
   \<and> (getDashboardFromCache now m k = Some d) =
       (\<exists>entry. dashboardCache m = Some entry \<and> cacheKey entry = k
          \<and> now - ts entry < 500 \<and> d = entry_dashboard entry)
   \<and> (getDashboardFromCache now m k = None) =
       (\<not> (\<exists>entry. dashboardCache m = Some entry \<and> cacheKey entry = k \<and> now - ts entry < 500))"
  by (auto simp: getDashboardFromCache_def DASHBOARD_CACHE_TTL_def split: option.splits)

theorem getDashboardFromCache_hit_iff_witness:
  "getDashboardFromCache 1499 (setDashboardCache 1000 ''abc'' sampleDTO (newManager :: ManagerV1)) ''abc''
     = Some sampleDTO
   \<and> getDashboardFromCache 1500 (setDashboardCache 1000 ''abc'' sampleDTO (newManager :: ManagerV1)) ''abc''
     = None"
  using getDashboardFromCache_hit_iff
    [of 1499 "setDashboardCache 1000 ''abc'' sampleDTO (newManager :: ManagerV1)" "''abc''" sampleDTO]
    getDashboardFromCache_hit_iff
    [of 1500 "setDashboardCache 1000 ''abc'' sampleDTO (newManager :: ManagerV1)" "''abc''" sampleDTO]
  by (simp add: setDashboardCache_def)

text \<open>
  Claim C10. The raw-response tier is one optional entry: \<open>setDashboardCache(k, d)\<close>
  replaces it by the entry for \<open>k\<close>, so right afterwards, at any time \<open>now'\<close>,
  \<open>getDashboardFromCache(k')\<close> is \<open>null\<close> for every other key \<open>k'\<close>, whatever was
  cached before.
\<close>

theorem setDashboardCache_single_entry:
  "dashboardCache (setDashboardCache now k d m) = Some \<lparr>entry_dashboard = d, ts = now, cacheKey = k\<rparr>
   \<and> (k' \<noteq> k \<longrightarrow> getDashboardFromCache now' (setDashboardCache now k d m) k' = None)"
  by (simp add: getDashboardFromCache_def setDashboardCache_def)

theorem setDashboardCache_single_entry_witness:
  "getDashboardFromCache 1001 (setDashboardCache 1000 ''abc'' sampleDTO (newManager :: ManagerV1)) ''abc''
     = Some sampleDTO
   \<and> getDashboardFromCache 1002
       (setDashboardCache 1001 ''xyz'' sampleDTO
          (setDashboardCache 1000 ''abc'' sampleDTO (newManager :: ManagerV1))) ''abc'' = None"
  using setDashboardCache_single_entry
    [of 1001 "''xyz''" sampleDTO "setDashboardCache 1000 ''abc'' sampleDTO (newManager :: ManagerV1)"
        "''abc''" 1002]
  by (simp add: getDashboardFromCache_def setDashboardCache_def DASHBOARD_CACHE_TTL_def)

section \<open>The history read query\<close>

lemma ListHistory_eq:
  "ListHistory i t = sort_key (\<lambda>r. - rh_resource_version r) (filter (identity_where i) t)"
  by (simp add: ListHistory_def resource_history_query_def order_by_desc_def)

lemma ListHistory_sorted:
  "sorted (map (\<lambda>r. - rh_resource_version r) (ListHistory i t))"
  by (simp add: ListHistory_eq)

lemma ListHistory_versions:
  assumes "mset (map rh_resource_version (filter (identity_where i) t)) = {#1, 2, 3#}"
  shows "map rh_resource_version (ListHistory i t) = [3, 2, 1]"
proof -
  let ?neg = "map (\<lambda>r. - rh_resource_version r) (ListHistory i t)"
  have "mset ?neg
          = image_mset uminus (mset (map rh_resource_version (filter (identity_where i) t)))"
    by (simp add: ListHistory_eq multiset.map_comp comp_def)
  also have "\<dots> = mset [- 3, - 2, - 1]"
    using assms by simp
  finally have "mset ?neg = mset [- 3, - 2, - 1 :: int]" .
  moreover have "sorted ?neg"
    by (rule ListHistory_sorted)
  ultimately have "sort [- 3, - 2, - 1 :: int] = ?neg"
    by (rule properties_for_sort)
  then have "?neg = [- 3, - 2, - 1]"
    by simp
  then have "map uminus ?neg = [3, 2, 1]"
    by simp
  then show ?thesis
    by (simp add: comp_def)
qed

lemma resource_history_get_rendering:
  "resource_history_get t = ListHistory renderedIdentity t"
proof -
  have "resource_history_where = identity_where renderedIdentity"
    by (simp add: resource_history_where_def identity_where_def renderedIdentity_def fun_eq_iff)
  then show ?thesis
    by (simp add: resource_history_get_def ListHistory_eq order_by_desc_def)
qed

text \<open>
  Claim C8. For every identity, the history read keeps exactly the rows whose namespace,
  group, resource and name are those of the identity, each as often as the table holds it,
  and returns them by decreasing \<open>resource_version\<close>; rows of any other identity, whichever
  of the four columns they differ in, are left out. So when the rows of the identity carry
  the versions 1, 2 and 3, in whatever order and among whatever other rows, the versions come
  out as [3, 2, 1]. The rendered query of the sources is this read for the identity
  ('nn', 'gg', 'rr', 'name').
\<close>

theorem ListHistory_filters_and_orders:
  "mset (ListHistory i t)
     = filter_mset (\<lambda>r. rh_namespace r = id_namespace i \<and> rh_group r = id_group i
                         \<and> rh_resource r = id_resource i \<and> rh_name r = id_name i) (mset t)
   \<and> sorted_wrt (\<lambda>v v'. v \<ge> v') (map rh_resource_version (ListHistory i t))
   \<and> (mset (map rh_resource_version
              (filter (\<lambda>r. rh_namespace r = id_namespace i \<and> rh_group r = id_group i
                         \<and> rh_resource r = id_resource i \<and> rh_name r = id_name i) t))
         = {#1, 2, 3#}
        \<longrightarrow> map rh_resource_version (ListHistory i t) = [3, 2, 1])
   \<and> resource_history_get t
       = ListHistory \<lparr>id_namespace = ''nn'', id_group = ''gg'', id_resource = ''rr'',
                      id_name = ''name''\<rparr> t"
proof -
  have w: "(\<lambda>r. rh_namespace r = id_namespace i \<and> rh_group r = id_group i
                 \<and> rh_resource r = id_resource i \<and> rh_name r = id_name i) = identity_where i"
    by (simp add: identity_where_def fun_eq_iff)
  have "mset (ListHistory i t) = filter_mset (identity_where i) (mset t)"
    by (simp add: ListHistory_eq)
  moreover have "sorted_wrt (\<lambda>v v'. v \<ge> v') (map rh_resource_version (ListHistory i t))"
    using ListHistory_sorted [of i t] by (simp add: sorted_wrt_map)
  moreover have "mset (map rh_resource_version (filter (identity_where i) t)) = {#1, 2, 3#}
                   \<longrightarrow> map rh_resource_version (ListHistory i t) = [3, 2, 1]"
    using ListHistory_versions [of i t] by simp
  moreover have "resource_history_get t
       = ListHistory \<lparr>id_namespace = ''nn'', id_group = ''gg'', id_resource = ''rr'',
                      id_name = ''name''\<rparr> t"
    using resource_history_get_rendering [of t] by (simp add: renderedIdentity_def)
  ultimately show ?thesis
    unfolding w by blast
qed

theorem ListHistory_filters_and_orders_witness:
  "map rh_resource_version
     (ListHistory dashboardIdentity
        [rowOf dashboardIdentity 2, rowOf renderedIdentity 9, rowOf dashboardIdentity 1,
         (rowOf dashboardIdentity 7)\<lparr>rh_namespace := ''other''\<rparr>,
         (rowOf dashboardIdentity 8)\<lparr>rh_group := ''other''\<rparr>,
         (rowOf dashboardIdentity 5)\<lparr>rh_resource := ''other''\<rparr>,
         (rowOf dashboardIdentity 6)\<lparr>rh_name := ''other''\<rparr>,
         rowOf dashboardIdentity 3]) = [3, 2, 1]
   \<and> map rh_resource_version
       (resource_history_get
          [sampleRow 2, sampleRow 1, (sampleRow 7)\<lparr>rh_name := ''other''\<rparr>, sampleRow 3])
       = [3, 2, 1]"
proof -
  have "map rh_resource_version
     (ListHistory dashboardIdentity
        [rowOf dashboardIdentity 2, rowOf renderedIdentity 9, rowOf dashboardIdentity 1,
         (rowOf dashboardIdentity 7)\<lparr>rh_namespace := ''other''\<rparr>,
         (rowOf dashboardIdentity 8)\<lparr>rh_group := ''other''\<rparr>,
         (rowOf dashboardIdentity 5)\<lparr>rh_resource := ''other''\<rparr>,
         (rowOf dashboardIdentity 6)\<lparr>rh_name := ''other''\<rparr>,
         rowOf dashboardIdentity 3]) = [3, 2, 1]"
    using ListHistory_filters_and_orders
      [of dashboardIdentity
          "[rowOf dashboardIdentity 2, rowOf renderedIdentity 9, rowOf dashboardIdentity 1,
            (rowOf dashboardIdentity 7)\<lparr>rh_namespace := ''other''\<rparr>,
            (rowOf dashboardIdentity 8)\<lparr>rh_group := ''other''\<rparr>,
            (rowOf dashboardIdentity 5)\<lparr>rh_resource := ''other''\<rparr>,
            (rowOf dashboardIdentity 6)\<lparr>rh_name := ''other''\<rparr>,
            rowOf dashboardIdentity 3]"]
    by (simp add: rowOf_def dashboardIdentity_def renderedIdentity_def)
  moreover have "map rh_resource_version
       (resource_history_get
          [sampleRow 2, sampleRow 1, (sampleRow 7)\<lparr>rh_name := ''other''\<rparr>, sampleRow 3])
       = [3, 2, 1]"
    using ListHistory_filters_and_orders
      [of "\<lparr>id_namespace = ''nn'', id_group = ''gg'', id_resource = ''rr'', id_name = ''name''\<rparr>"
          "[sampleRow 2, sampleRow 1, (sampleRow 7)\<lparr>rh_name := ''other''\<rparr>, sampleRow 3]"]
    by (simp add: sampleRow_def)
  ultimately show ?thesis
    by simp
qed

section \<open>The manifest's association of kinds and versions\<close>

lemma manifestKindVersions_eq:
  "manifestKindVersions =
     [(''Dashboard'', ''v0alpha1''), (''Dashboard'', ''v1beta1''),
      (''Dashboard'', ''v2alpha1''), (''Dashboard'', ''v2alpha2'')]"
  by (simp add: manifestKindVersions_def appManifestData_Kinds_def)

text \<open>A key of the map has one slash, so it splits into kind and version in one way only.\<close>

lemma key_v0alpha1:
  "(kind @ CHR ''/'' # version = ''Dashboard/v0alpha1'') = (kind = ''Dashboard'' \<and> version = ''v0alpha1'')"
  by (auto simp: append_eq_Cons_conv)

lemma key_v1beta1:
  "(kind @ CHR ''/'' # version = ''Dashboard/v1beta1'') = (kind = ''Dashboard'' \<and> version = ''v1beta1'')"
  by (auto simp: append_eq_Cons_conv)

lemma key_v2alpha1:
  "(kind @ CHR ''/'' # version = ''Dashboard/v2alpha1'') = (kind = ''Dashboard'' \<and> version = ''v2alpha1'')"
  by (auto simp: append_eq_Cons_conv)

lemma key_v2alpha2:
  "(kind @ CHR ''/'' # version = ''Dashboard/v2alpha2'') = (kind = ''Dashboard'' \<and> version = ''v2alpha2'')"
  by (auto simp: append_eq_Cons_conv)

lemma kindVersionToGoType_lookup:
  "map_of (kindVersionToGoType p) (kind @ CHR ''/'' # version) =
     (if (kind, version) \<in> set manifestKindVersions then Some (declaredKind p version) else None)"
  by (simp add: kindVersionToGoType_def manifestKindVersions_eq declaredKind_def
        key_v0alpha1 key_v1beta1 key_v2alpha1 key_v2alpha2)

text \<open>
  Claim C9. On the manifest's map, \<open>ManifestGoTypeAssociator\<close> leaves the map as it is, a
  second call returns what the first returned, a pair (kind, version) that the manifest
  declares resolves to the Kind of its package with \<open>exists = true\<close>, and every other pair
  gives the zero Kind with \<open>exists = false\<close>.
\<close>

theorem ManifestGoTypeAssociator_resolves:
  fixes p :: KindPackages
  defines "registry \<equiv> kindVersionToGoType p"
  shows "snd (ManifestGoTypeAssociator registry kind version) = registry
         \<and> fst (ManifestGoTypeAssociator
                  (snd (ManifestGoTypeAssociator registry kind version)) kind version)
             = fst (ManifestGoTypeAssociator registry kind version)
         \<and> ((kind, version) \<in> set manifestKindVersions \<longrightarrow>
              fst (ManifestGoTypeAssociator registry kind version) = (declaredKind p version, True))
         \<and> ((kind, version) \<notin> set manifestKindVersions \<longrightarrow>
              fst (ManifestGoTypeAssociator registry kind version) = (zeroKind, False))"
  by (simp add: ManifestGoTypeAssociator_def registry_def kindVersionToGoType_lookup
        split: option.splits)

theorem ManifestGoTypeAssociator_resolves_witness:
  "fst (ManifestGoTypeAssociator (kindVersionToGoType samplePackages) ''Dashboard'' ''v2alpha1'')
     = (sampleKind ''v2alpha1'', True)
   \<and> fst (ManifestGoTypeAssociator (kindVersionToGoType samplePackages) ''Dashboard'' ''v3'')
     = (zeroKind, False)
   \<and> fst (ManifestGoTypeAssociator (kindVersionToGoType samplePackages) ''Dashboard/v2alpha1'' [])
     = (zeroKind, False)"
  using ManifestGoTypeAssociator_resolves [of samplePackages "''Dashboard''" "''v2alpha1''"]
    ManifestGoTypeAssociator_resolves [of samplePackages "''Dashboard''" "''v3''"]
    ManifestGoTypeAssociator_resolves [of samplePackages "''Dashboard/v2alpha1''" "[]"]
  by (simp add: manifestKindVersions_eq declaredKind_def samplePackages_def)

section \<open>What a fetch leaves behind\<close>

text \<open>
  Each \<open>fetchDashboard\<close> records its own entry and otherwise only calls to
  collaborators; it leaves the page state and the scene cache of its manager alone.
\<close>

lemma fetchCalls_append: "fetchCalls (xs @ ys) = fetchCalls xs @ fetchCalls ys"
  by (induction xs rule: fetchCalls.induct) simp_all

lemma trace_perform: "trace (perform e c w) = trace w @ [c]"
  by (simp add: perform_def)

lemma trace_locationReplace: "trace (locationReplace e p w) = trace w @ [LocationReplace p]"
  by (simp add: locationReplace_def perform_def)

lemma fetchCalls_switch:
  "fetchCalls (trace (snd (fetchDashboard_switch e options w))) = fetchCalls (trace w)"
  by (cases "route options")
     (auto simp: fetchDashboard_switch_def Let_def trace_perform trace_locationReplace
        fetchCalls_append split: sum.splits HomeResponse.splits)

lemma fetchCalls_finish:
  "fetchCalls (trace (snd (snd (fetchDashboard_finish e options key rsp m w)))) = fetchCalls (trace w)"
  by (auto simp: fetchDashboard_finish_def Let_def trace_perform trace_locationReplace
        fetchCalls_append split: option.splits)

lemma state_finish:
  "state (fst (snd (fetchDashboard_finish e options key rsp m w))) = state m"
  "cache (fst (snd (fetchDashboard_finish e options key rsp m w))) = cache m"
  by (auto simp: fetchDashboard_finish_def Let_def setDashboardCache_def split: option.splits)

lemma fetchCalls_try:
  "fetchCalls (trace (snd (snd (fetchDashboard_try e options key m w)))) = fetchCalls (trace w)"
proof (cases "fetchDashboard_switch e options w")
  case (Pair r w1)
  with fetchCalls_switch [of e options w] have "fetchCalls (trace w1) = fetchCalls (trace w)"
    by simp
  with Pair show ?thesis
    by (simp add: fetchDashboard_try_def fetchCalls_finish split: sum.splits)
qed

lemma state_try:
  "state (fst (snd (fetchDashboard_try e options key m w))) = state m"
  "cache (fst (snd (fetchDashboard_try e options key m w))) = cache m"
  by (simp_all add: fetchDashboard_try_def state_finish split: prod.splits sum.splits)

lemma fetchCalls_fetchDashboard:
  "fetchCalls (trace (snd (snd (fetchDashboard e options m w))))
     = fetchCalls (trace w) @ [(V1, options)]"
proof -
  let ?w = "w\<lparr>trace := trace w @ [FetchDashboard V1 options]\<rparr>"
  let ?k = "cacheKeyOf options"
  obtain r m1 w1 where t: "fetchDashboard_try e options ?k m ?w = (r, m1, w1)"
    by (cases "fetchDashboard_try e options ?k m ?w") auto
  with fetchCalls_try [of e options ?k m ?w]
  have "fetchCalls (trace w1) = fetchCalls (trace w) @ [(V1, options)]"
    by (simp add: fetchCalls_append)
  with t show ?thesis
    by (simp add: fetchDashboard_def Let_def fetchCalls_append split: option.splits sum.splits)
qed

lemma state_fetchDashboard:
  "state (fst (snd (fetchDashboard e options m w))) = state m"
  "cache (fst (snd (fetchDashboard e options m w))) = cache m"
proof -
  let ?w = "w\<lparr>trace := trace w @ [FetchDashboard V1 options]\<rparr>"
  let ?k = "cacheKeyOf options"
  obtain r m1 w1 where t: "fetchDashboard_try e options ?k m ?w = (r, m1, w1)"
    by (cases "fetchDashboard_try e options ?k m ?w") auto
  with state_try [of e options ?k m ?w] have "state m1 = state m" "cache m1 = cache m"
    by simp_all
  with t show "state (fst (snd (fetchDashboard e options m w))) = state m"
    "cache (fst (snd (fetchDashboard e options m w))) = cache m"
    by (simp_all add: fetchDashboard_def Let_def split: option.splits sum.splits)
qed


lemma fetchCalls_switchV2:
  "fetchCalls (trace (snd (fetchDashboardV2_switch e options w))) = fetchCalls (trace w)"
  by (cases "route options")
     (auto simp: fetchDashboardV2_switch_def Let_def trace_perform trace_locationReplace
        fetchCalls_append split: sum.splits HomeResponse.splits)

lemma fetchCalls_finishV2:
  "fetchCalls (trace (snd (snd (fetchDashboardV2_finish e options key rsp m w)))) = fetchCalls (trace w)"
  by (auto simp: fetchDashboardV2_finish_def Let_def trace_perform trace_locationReplace
        fetchCalls_append split: option.splits)

lemma state_finishV2:
  "state (fst (snd (fetchDashboardV2_finish e options key rsp m w))) = state m"
  "cache (fst (snd (fetchDashboardV2_finish e options key rsp m w))) = cache m"
  by (auto simp: fetchDashboardV2_finish_def Let_def setDashboardCache_def split: option.splits)

lemma fetchCalls_tryV2:
  "fetchCalls (trace (snd (snd (fetchDashboardV2_try e options key m w)))) = fetchCalls (trace w)"
proof (cases "fetchDashboardV2_switch e options w")
  case (Pair r w1)
  with fetchCalls_switchV2 [of e options w] have "fetchCalls (trace w1) = fetchCalls (trace w)"
    by simp
  with Pair show ?thesis
    by (simp add: fetchDashboardV2_try_def fetchCalls_finishV2 split: sum.splits)
qed

lemma state_tryV2:
  "state (fst (snd (fetchDashboardV2_try e options key m w))) = state m"
  "cache (fst (snd (fetchDashboardV2_try e options key m w))) = cache m"
  by (simp_all add: fetchDashboardV2_try_def state_finishV2 split: prod.splits sum.splits)

lemma fetchCalls_fetchDashboardV2:
  "fetchCalls (trace (snd (snd (fetchDashboardV2 e options m w))))
     = fetchCalls (trace w) @ [(V2, options)]"
proof -
  let ?w = "w\<lparr>trace := trace w @ [FetchDashboard V2 options]\<rparr>"
  let ?k = "cacheKeyOf options"
  obtain r m1 w1 where t: "fetchDashboardV2_try e options ?k m ?w = (r, m1, w1)"
    by (cases "fetchDashboardV2_try e options ?k m ?w") auto
  with fetchCalls_tryV2 [of e options ?k m ?w]
  have "fetchCalls (trace w1) = fetchCalls (trace w) @ [(V2, options)]"
    by (simp add: fetchCalls_append)
  with t show ?thesis
    by (simp add: fetchDashboardV2_def Let_def fetchCalls_append split: option.splits sum.splits)
qed

lemma state_fetchDashboardV2:
  "state (fst (snd (fetchDashboardV2 e options m w))) = state m"
  "cache (fst (snd (fetchDashboardV2 e options m w))) = cache m"
proof -
  let ?w = "w\<lparr>trace := trace w @ [FetchDashboard V2 options]\<rparr>"
  let ?k = "cacheKeyOf options"
  obtain r m1 w1 where t: "fetchDashboardV2_try e options ?k m ?w = (r, m1, w1)"
    by (cases "fetchDashboardV2_try e options ?k m ?w") auto
  with state_tryV2 [of e options ?k m ?w] have "state m1 = state m" "cache m1 = cache m"
    by simp_all
  with t show "state (fst (snd (fetchDashboardV2 e options m w))) = state m"
    "cache (fst (snd (fetchDashboardV2 e options m w))) = cache m"
    by (simp_all add: fetchDashboardV2_def Let_def split: option.splits sum.splits)
qed


lemma activeManager_onManager:
  "activeManager (fst (snd (onManager op1 op2 v u w))) = activeManager u"
  by (cases v) (simp_all split: prod.splits)

lemma fetchCalls_onManager:
  "fetchCalls (trace (snd (snd
      (onManager (\<lambda>m w. asV1 (fetchDashboard e options m w))
                 (\<lambda>m w. asV2 (fetchDashboardV2 e options m w)) v u w))))
     = fetchCalls (trace w) @ [(v, options)]"
proof (cases v)
  case V1
  obtain r m1 w1 where "fetchDashboard e options (v1Manager u) w = (r, m1, w1)"
    by (cases "fetchDashboard e options (v1Manager u) w") auto
  with V1 fetchCalls_fetchDashboard [of e options "v1Manager u" w] show ?thesis
    by (simp add: asV1_def)
next
  case V2
  obtain r m1 w1 where "fetchDashboardV2 e options (v2Manager u) w = (r, m1, w1)"
    by (cases "fetchDashboardV2 e options (v2Manager u) w") auto
  with V2 fetchCalls_fetchDashboardV2 [of e options "v2Manager u" w] show ?thesis
    by (simp add: asV2_def)
qed

lemma fetchCalls_firstAttempt:
  "fetchCalls (trace (snd (snd (firstAttempt e options u w))))
     = fetchCalls (trace w) @ [(activeManager u, options)]"
  by (simp add: firstAttempt_def fetchCalls_onManager)

lemma activeManager_firstAttempt:
  "activeManager (fst (snd (firstAttempt e options u w))) = activeManager u"
  by (simp add: firstAttempt_def activeManager_onManager)

lemma fetchCalls_fallbackAttempt:
  "fetchCalls (trace (snd (snd (fallbackAttempt e options v u w))))
     = fetchCalls (trace w) @ [(activeManager u, options), (v, options)]"
proof -
  obtain r u1 w1 where f: "firstAttempt e options u w = (r, u1, w1)"
    by (cases "firstAttempt e options u w") auto
  with fetchCalls_firstAttempt [of e options u w]
  have "fetchCalls (trace w1) = fetchCalls (trace w) @ [(activeManager u, options)]"
    by simp
  with f show ?thesis
    by (simp add: fallbackAttempt_def fetchCalls_onManager)
qed

text \<open>
  Whatever the operation, \<open>withVersionHandling\<close> runs it once on the active manager
  and, after a version error only, once more on the manager chosen for the stored version;
  the second run's result is returned as it is.
\<close>

lemma withVersionHandling_cases:
  "withVersionHandling op1 op2 u w =
     (case onManager op1 op2 (activeManager u) u w of
        (Inr result, u1, w1) \<Rightarrow> (Inr result, setState (mergeState (activeState u1)) u1, w1)
      | (Inl err, u1, w1) \<Rightarrow>
          (case versionError (Inl err :: error + unit) of
             Some sv \<Rightarrow> onManager op1 op2 (managerFor sv) (u1\<lparr>activeManager := managerFor sv\<rparr>) w1
           | None \<Rightarrow> (Inl err, u1, w1)))"
  by (simp add: withVersionHandling_def Let_def split: prod.splits sum.splits error.splits)

lemma fetchDashboardUnified_cases:
  "fetchDashboardUnified e options u w =
     (case firstAttempt e options u w of
        (Inr result, u1, w1) \<Rightarrow> (Inr result, setState (mergeState (activeState u1)) u1, w1)
      | (Inl err, u1, w1) \<Rightarrow>
          (case versionError (Inl err :: error + unit) of
             Some sv \<Rightarrow> fallbackAttempt e options (managerFor sv) u w
           | None \<Rightarrow> (Inl err, u1, w1)))"
  by (simp add: fetchDashboardUnified_def withVersionHandling_cases firstAttempt_def
        fallbackAttempt_def split: prod.splits sum.splits option.splits)


lemma loadRequests_append: "loadRequests (xs @ ys) = loadRequests xs @ loadRequests ys"
  by (simp add: loadRequests_def)

lemma loadRequests_switch:
  "length (loadRequests (trace (snd (fetchDashboard_switch e options w))))
     = length (loadRequests (trace w)) + 1"
  by (cases "route options")
     (auto simp: fetchDashboard_switch_def Let_def trace_perform trace_locationReplace
        loadRequests_def split: sum.splits HomeResponse.splits)

lemma loadRequests_finish:
  "loadRequests (trace (snd (snd (fetchDashboard_finish e options key rsp m w))))
     = loadRequests (trace w)"
  by (auto simp: fetchDashboard_finish_def Let_def trace_perform trace_locationReplace
        loadRequests_def split: option.splits)

lemma loadRequests_try:
  "length (loadRequests (trace (snd (snd (fetchDashboard_try e options key m w)))))
     = length (loadRequests (trace w)) + 1"
proof (cases "fetchDashboard_switch e options w")
  case (Pair r w1)
  with loadRequests_switch [of e options w]
  have "length (loadRequests (trace w1)) = length (loadRequests (trace w)) + 1"
    by simp
  with Pair show ?thesis
    by (simp add: fetchDashboard_try_def loadRequests_finish split: sum.splits)
qed

lemma loadRequests_fetchDashboard:
  "length (loadRequests (trace (snd (snd (fetchDashboard e options m w)))))
     = length (loadRequests (trace w))
       + (if params options = None
            \<and> getDashboardFromCache (clock w) m (cacheKeyOf options) \<noteq> None then 0 else 1)"
proof -
  let ?w = "w\<lparr>trace := trace w @ [FetchDashboard V1 options]\<rparr>"
  let ?k = "cacheKeyOf options"
  obtain r m1 w1 where t: "fetchDashboard_try e options ?k m ?w = (r, m1, w1)"
    by (cases "fetchDashboard_try e options ?k m ?w") auto
  with loadRequests_try [of e options ?k m ?w]
  have "length (loadRequests (trace w1)) = length (loadRequests (trace w)) + 1"
    by (simp add: loadRequests_def)
  with t show ?thesis
    by (auto simp: fetchDashboard_def Let_def loadRequests_def split: option.splits sum.splits)
qed

lemma fst_try_manager:
  "fst (fetchDashboard_try e options key m w) = fst (fetchDashboard_try e options key m' w)"
  by (simp add: fetchDashboard_try_def fetchDashboard_finish_def Let_def
        split: prod.splits sum.splits option.splits)

lemma raisesCancelled_setState:
  "raisesCancelled e options (setState f m) w = raisesCancelled e options m w"
  using fst_try_manager [of e options "cacheKeyOf options" "setState f m" _ m]
  by (simp add: raisesCancelled_def Let_def getDashboardFromCache_def setState_def)

lemma fetchDashboard_cancelled:
  assumes "raisesCancelled e options m w"
  shows "fst (fetchDashboard e options m w) = Inr None"
proof -
  let ?w = "w\<lparr>trace := trace w @ [FetchDashboard V1 options]\<rparr>"
  obtain r m1 w1 where t: "fetchDashboard_try e options (cacheKeyOf options) m ?w = (r, m1, w1)"
    by (cases "fetchDashboard_try e options (cacheKeyOf options) m ?w") auto
  with assms show ?thesis
    by (auto simp: raisesCancelled_def fetchDashboard_def Let_def split: sum.splits)
qed


lemma world_reloadDashboard:
  assumes "st_options (state m) = Some stateOptions"
    and "\<not> sameContentParams ps (params stateOptions)"
  shows "snd (reloadDashboard e ps m w)
           = snd (snd (fetchDashboard e (stateOptions\<lparr>params := ps\<rparr>)
                         (setState (\<lambda>s. s\<lparr>st_isLoading := Some True\<rparr>) m) w))"
proof -
  let ?o = "stateOptions\<lparr>params := ps\<rparr>"
  let ?m = "setState (\<lambda>s. s\<lparr>st_isLoading := Some True\<rparr>) m"
  obtain r m1 w1 where f: "fetchDashboard e ?o ?m w = (r, m1, w1)"
    by (cases "fetchDashboard e ?o ?m w") auto
  with assms show ?thesis
    by (auto simp: reloadDashboard_def sameContentParams_def Let_def
          split: sum.splits option.splits)
qed

lemma fetchCalls_reloadDashboard:
  assumes "st_options (state m) = Some stateOptions"
    and "\<not> sameContentParams ps (params stateOptions)"
  shows "fetchCalls (trace (snd (reloadDashboard e ps m w)))
           = fetchCalls (trace w) @ [(V1, stateOptions\<lparr>params := ps\<rparr>)]"
  by (simp add: world_reloadDashboard [OF assms] fetchCalls_fetchDashboard)

lemma loadRequests_reloadDashboard:
  assumes "st_options (state m) = Some stateOptions"
    and "\<not> sameContentParams ps (params stateOptions)"
  shows "length (loadRequests (trace (snd (reloadDashboard e ps m w))))
           = length (loadRequests (trace w))
             + (if ps = None
                  \<and> getDashboardFromCache (clock w) m (cacheKeyOf stateOptions) \<noteq> None
                then 0 else 1)"
proof -
  let ?o = "stateOptions\<lparr>params := ps\<rparr>"
  let ?m = "setState (\<lambda>s. s\<lparr>st_isLoading := Some True\<rparr>) m"
  have "cacheKeyOf ?o = cacheKeyOf stateOptions"
    by (simp add: cacheKeyOf_def)
  moreover have "getDashboardFromCache (clock w) ?m k = getDashboardFromCache (clock w) m k" for k
    by (simp add: getDashboardFromCache_def setState_def)
  ultimately show ?thesis
    by (simp add: world_reloadDashboard [OF assms] loadRequests_fetchDashboard)
qed


section \<open>Version fallback of the unified manager\<close>

text \<open>
  Claim C1. A fetch through the unified manager enters \<open>fetchDashboard\<close> of the active
  manager once. When that attempt does not end in a \<open>DashboardVersionError\<close>, nothing
  more is fetched and its outcome is the outcome. When it ends in a version error naming
  \<open>sv\<close>, exactly one more fetch is made, through the manager chosen for \<open>sv\<close>
  ('v2alpha1' gives the v2 manager, anything else the v1 manager), and whatever that
  attempt yields, a second version error included, is the outcome of the whole fetch: at
  most two entries into \<open>fetchDashboard\<close> are ever recorded.
\<close>

theorem fetchDashboardUnified_one_fallback:
  "(versionError (fst (firstAttempt e options u w)) = None \<longrightarrow>
      fst (fetchDashboardUnified e options u w) = fst (firstAttempt e options u w)
      \<and> fetchCalls (trace (snd (snd (fetchDashboardUnified e options u w))))
          = fetchCalls (trace w) @ [(activeManager u, options)])
   \<and> (versionError (fst (firstAttempt e options u w)) = Some sv \<longrightarrow>
      fetchDashboardUnified e options u w
        = fallbackAttempt e options (if sv = ''v2alpha1'' then V2 else V1) u w
      \<and> fetchCalls (trace (snd (snd (fetchDashboardUnified e options u w))))
          = fetchCalls (trace w)
            @ [(activeManager u, options), (if sv = ''v2alpha1'' then V2 else V1, options)])"
proof -
  obtain r u1 w1 where f: "firstAttempt e options u w = (r, u1, w1)"
    by (cases "firstAttempt e options u w") auto
  with fetchCalls_firstAttempt [of e options u w]
  have t: "fetchCalls (trace w1) = fetchCalls (trace w) @ [(activeManager u, options)]"
    by simp
  show ?thesis
  proof (cases r)
    case (Inr result)
    with f t show ?thesis
      by (simp add: fetchDashboardUnified_cases)
  next
    case (Inl err)
    show ?thesis
    proof (cases err)
      case (DashboardVersionError sv')
      with f Inl show ?thesis
        using fetchCalls_fallbackAttempt [of e options "managerFor sv'" u w]
        by (auto simp: fetchDashboardUnified_cases managerFor_def)
    qed (use f t Inl in \<open>simp_all add: fetchDashboardUnified_cases\<close>)
  qed
qed

theorem fetchDashboardUnified_one_fallback_witness:
  "versionError (fst (firstAttempt storedAsV2Env normalOptions newUnified world0)) = Some ''v2alpha1''
   \<and> fst (fetchDashboardUnified storedAsV2Env normalOptions newUnified world0)
       = Inr (Some (Inr sampleV2))
   \<and> fetchCalls (trace (snd (snd (fetchDashboardUnified storedAsV2Env normalOptions newUnified world0))))
       = [(V1, normalOptions), (V2, normalOptions)]
   \<and> versionError (fst (firstAttempt chainedMismatchEnv normalOptions newUnified world0))
       = Some ''v2alpha1''
   \<and> fst (fetchDashboardUnified chainedMismatchEnv normalOptions newUnified world0)
       = Inl (DashboardVersionError ''v1'')
   \<and> fetchCalls (trace (snd (snd (fetchDashboardUnified chainedMismatchEnv normalOptions newUnified world0))))
       = [(V1, normalOptions), (V2, normalOptions)]
   \<and> versionError (fst (firstAttempt storedAsV2alpha2Env normalOptions newUnified world0))
       = Some ''v2alpha2''
   \<and> fst (fetchDashboardUnified storedAsV2alpha2Env normalOptions newUnified world0)
       = Inl (DashboardVersionError ''v2alpha2'')
   \<and> fetchCalls (trace (snd (snd (fetchDashboardUnified storedAsV2alpha2Env normalOptions
                                      newUnified world0))))
       = [(V1, normalOptions), (V1, normalOptions)]
   \<and> versionError (fst (firstAttempt chainedMismatchEnv normalOptions v2ActiveUnified world0))
       = Some ''v1''
   \<and> fetchCalls (trace (snd (snd (fetchDashboardUnified chainedMismatchEnv normalOptions
                                      v2ActiveUnified world0))))
       = [(V2, normalOptions), (V1, normalOptions)]"
proof -
  have f1: "fst (firstAttempt storedAsV2Env normalOptions newUnified world0)
              = Inl (DashboardVersionError ''v2alpha1'')"
    by (simp add: firstAttempt_def newUnified_def newManager_def asV1_def fetchDashboard_def
          cacheKeyOf_def normalOptions_def getDashboardFromCache_def fetchDashboard_try_def
          fetchDashboard_switch_def Let_def storedAsV2Env_def sampleEnv_def)
  have f2: "fst (firstAttempt chainedMismatchEnv normalOptions newUnified world0)
              = Inl (DashboardVersionError ''v2alpha1'')"
    by (simp add: firstAttempt_def newUnified_def newManager_def asV1_def fetchDashboard_def
          cacheKeyOf_def normalOptions_def getDashboardFromCache_def fetchDashboard_try_def
          fetchDashboard_switch_def Let_def chainedMismatchEnv_def storedAsV2Env_def sampleEnv_def)
  have f3: "fst (firstAttempt storedAsV2alpha2Env normalOptions newUnified world0)
              = Inl (DashboardVersionError ''v2alpha2'')"
    by (simp add: firstAttempt_def newUnified_def newManager_def asV1_def fetchDashboard_def
          cacheKeyOf_def normalOptions_def getDashboardFromCache_def fetchDashboard_try_def
          fetchDashboard_switch_def Let_def storedAsV2alpha2Env_def sampleEnv_def)
  have f4: "fst (firstAttempt chainedMismatchEnv normalOptions v2ActiveUnified world0)
              = Inl (DashboardVersionError ''v1'')"
    by (simp add: firstAttempt_def v2ActiveUnified_def newManager_def asV2_def fetchDashboardV2_def
          cacheKeyOf_def normalOptions_def getDashboardFromCache_def fetchDashboardV2_try_def
          fetchDashboardV2_switch_def Let_def chainedMismatchEnv_def storedAsV2Env_def
          sampleEnv_def)
  have r1: "fst (fetchDashboardUnified storedAsV2Env normalOptions newUnified world0)
              = Inr (Some (Inr sampleV2))"
    by (simp add: fetchDashboardUnified_def withVersionHandling_def managerFor_def
          newUnified_def newManager_def asV1_def asV2_def fetchDashboard_def fetchDashboardV2_def
          cacheKeyOf_def normalOptions_def getDashboardFromCache_def fetchDashboard_try_def
          fetchDashboardV2_try_def fetchDashboardV2_finish_def AnnoKeyFolder_def sampleV2_def
          fetchDashboard_switch_def fetchDashboardV2_switch_def Let_def storedAsV2Env_def
          sampleEnv_def perform_def world0_def setDashboardCache_def)
  have r2: "fst (fetchDashboardUnified chainedMismatchEnv normalOptions newUnified world0)
              = Inl (DashboardVersionError ''v1'')"
    by (simp add: fetchDashboardUnified_def withVersionHandling_def managerFor_def
          newUnified_def newManager_def asV1_def asV2_def fetchDashboard_def fetchDashboardV2_def
          cacheKeyOf_def normalOptions_def getDashboardFromCache_def fetchDashboard_try_def
          fetchDashboardV2_try_def fetchDashboard_switch_def fetchDashboardV2_switch_def Let_def
          chainedMismatchEnv_def storedAsV2Env_def sampleEnv_def perform_def world0_def)
  have r3: "fst (fetchDashboardUnified storedAsV2alpha2Env normalOptions newUnified world0)
              = Inl (DashboardVersionError ''v2alpha2'')"
    by (simp add: fetchDashboardUnified_def withVersionHandling_def managerFor_def
          newUnified_def newManager_def asV1_def fetchDashboard_def
          cacheKeyOf_def normalOptions_def getDashboardFromCache_def fetchDashboard_try_def
          fetchDashboard_switch_def Let_def
          storedAsV2alpha2Env_def sampleEnv_def perform_def world0_def)
  have a: "activeManager newUnified = V1"
    by (simp add: newUnified_def)
  have a2: "activeManager v2ActiveUnified = V2"
    by (simp add: v2ActiveUnified_def)
  have t: "fetchCalls (trace world0) = []"
    by (simp add: world0_def)
  have c1: "fetchCalls (trace (snd (snd (fetchDashboardUnified storedAsV2Env normalOptions
                                           newUnified world0))))
              = [(V1, normalOptions), (V2, normalOptions)]"
    using fetchDashboardUnified_one_fallback
            [of storedAsV2Env normalOptions newUnified world0 "''v2alpha1''"]
    by (auto simp: f1 a t)
  have c2: "fetchCalls (trace (snd (snd (fetchDashboardUnified chainedMismatchEnv normalOptions
                                           newUnified world0))))
              = [(V1, normalOptions), (V2, normalOptions)]"
    using fetchDashboardUnified_one_fallback
            [of chainedMismatchEnv normalOptions newUnified world0 "''v2alpha1''"]
    by (auto simp: f2 a t)
  have c3: "fetchCalls (trace (snd (snd (fetchDashboardUnified storedAsV2alpha2Env normalOptions
                                           newUnified world0))))
              = [(V1, normalOptions), (V1, normalOptions)]"
    using fetchDashboardUnified_one_fallback
            [of storedAsV2alpha2Env normalOptions newUnified world0 "''v2alpha2''"]
    by (auto simp: f3 a t)
  have c4: "fetchCalls (trace (snd (snd (fetchDashboardUnified chainedMismatchEnv normalOptions
                                           v2ActiveUnified world0))))
              = [(V2, normalOptions), (V1, normalOptions)]"
    using fetchDashboardUnified_one_fallback
            [of chainedMismatchEnv normalOptions v2ActiveUnified world0 "''v1''"]
    by (auto simp: f4 a2 t)
  show ?thesis
    by (simp add: f1 f2 f3 f4 r1 r2 r3 c1 c2 c3 c4)
qed

text \<open>
  Claim C2, as the code has it. The active manager after a fetch through the unified
  manager is decided by the first attempt alone: a version error naming \<open>sv\<close> makes the
  v2 manager (when \<open>sv\<close> is 'v2alpha1') or the v1 manager (for any other \<open>sv\<close>) the
  active one before the fallback fetch runs, and it stays the active one whether that fetch
  succeeds or fails; without a version error the active manager is the one from before the
  fetch. \<open>transformResponseToScene\<close> makes the v2
  manager the active one when it is given a v2 resource, and leaves the active manager
  alone otherwise.
\<close>

theorem activeManager_after_fetch:
  "activeManager (fst (snd (fetchDashboardUnified e options u w)))
     = (case versionError (fst (firstAttempt e options u w)) of
          Some sv \<Rightarrow> (if sv = ''v2alpha1'' then V2 else V1)
        | None \<Rightarrow> activeManager u)
   \<and> activeManager (snd (transformResponseToSceneUnified e rsp options u))
     = (case rsp of Some (Inr r2) \<Rightarrow> V2 | _ \<Rightarrow> activeManager u)"
proof -
  obtain r u1 w1 where f: "firstAttempt e options u w = (r, u1, w1)"
    by (cases "firstAttempt e options u w") auto
  with activeManager_firstAttempt [of e options u w]
  have a: "activeManager u1 = activeManager u"
    by simp
  have "activeManager (fst (snd (fetchDashboardUnified e options u w)))
     = (case versionError (fst (firstAttempt e options u w)) of
          Some sv \<Rightarrow> (if sv = ''v2alpha1'' then V2 else V1)
        | None \<Rightarrow> activeManager u)"
  proof (cases r)
    case (Inr result)
    with f a show ?thesis
      by (simp add: fetchDashboardUnified_cases setState_def)
  next
    case (Inl err)
    show ?thesis
    proof (cases err)
      case (DashboardVersionError sv')
      with f Inl show ?thesis
        by (simp add: fetchDashboardUnified_cases fallbackAttempt_def activeManager_onManager
              managerFor_def)
    qed (use f a Inl in \<open>simp_all add: fetchDashboardUnified_cases\<close>)
  qed
  moreover have "activeManager (snd (transformResponseToSceneUnified e rsp options u))
     = (case rsp of Some (Inr r2) \<Rightarrow> V2 | _ \<Rightarrow> activeManager u)"
    by (simp add: transformResponseToSceneUnified_def split: option.splits sum.splits prod.splits)
  ultimately show ?thesis by simp
qed

theorem activeManager_after_fetch_witness:
  "activeManager (fst (snd (fetchDashboardUnified storedAsV2Env normalOptions newUnified world0))) = V2
   \<and> activeManager (fst (snd (fetchDashboardUnified storedAsV2alpha2Env normalOptions
                                  newUnified world0))) = V1
   \<and> activeManager v2ActiveUnified = V2
   \<and> activeManager (fst (snd (fetchDashboardUnified chainedMismatchEnv normalOptions
                                  v2ActiveUnified world0))) = V1
   \<and> activeManager (fst (snd (fetchDashboardUnified sampleEnv normalOptions newUnified world0))) = V1
   \<and> activeManager (snd (transformResponseToSceneUnified sampleEnv (Some (Inr sampleV2))
                             normalOptions newUnified)) = V2"
proof -
  have "fst (firstAttempt storedAsV2Env normalOptions newUnified world0)
          = Inl (DashboardVersionError ''v2alpha1'')"
    by (simp add: firstAttempt_def newUnified_def newManager_def asV1_def fetchDashboard_def
          cacheKeyOf_def normalOptions_def getDashboardFromCache_def fetchDashboard_try_def
          fetchDashboard_switch_def Let_def storedAsV2Env_def sampleEnv_def)
  moreover have "fst (firstAttempt storedAsV2alpha2Env normalOptions newUnified world0)
          = Inl (DashboardVersionError ''v2alpha2'')"
    by (simp add: firstAttempt_def newUnified_def newManager_def asV1_def fetchDashboard_def
          cacheKeyOf_def normalOptions_def getDashboardFromCache_def fetchDashboard_try_def
          fetchDashboard_switch_def Let_def storedAsV2alpha2Env_def sampleEnv_def)
  moreover have "fst (firstAttempt chainedMismatchEnv normalOptions v2ActiveUnified world0)
          = Inl (DashboardVersionError ''v1'')"
    by (simp add: firstAttempt_def v2ActiveUnified_def newManager_def asV2_def fetchDashboardV2_def
          cacheKeyOf_def normalOptions_def getDashboardFromCache_def fetchDashboardV2_try_def
          fetchDashboardV2_switch_def Let_def chainedMismatchEnv_def storedAsV2Env_def
          sampleEnv_def)
  moreover have "fst (firstAttempt sampleEnv normalOptions newUnified world0)
          = Inr (Some (Inl sampleDTO))"
    by (simp add: firstAttempt_def newUnified_def newManager_def asV1_def fetchDashboard_def
          cacheKeyOf_def normalOptions_def getDashboardFromCache_def fetchDashboard_try_def
          fetchDashboard_switch_def fetchDashboard_finish_def sampleDTO_def Let_def sampleEnv_def)
  moreover have "activeManager newUnified = V1"
    by (simp add: newUnified_def)
  moreover have "activeManager v2ActiveUnified = V2"
    by (simp add: v2ActiveUnified_def)
  ultimately show ?thesis
    using activeManager_after_fetch [of storedAsV2Env normalOptions newUnified world0]
          activeManager_after_fetch [of storedAsV2alpha2Env normalOptions newUnified world0]
          activeManager_after_fetch [of chainedMismatchEnv normalOptions v2ActiveUnified world0]
          activeManager_after_fetch [of sampleEnv normalOptions newUnified world0
                                        "Some (Inr sampleV2)"]
    by simp
qed

text \<open>
  The claim as stated fails: the stored dashboard is v2 and the v2 loader answers 500. The
  fetch fails, and the active manager, v1 before the fetch, is the v2 manager after it.
\<close>

theorem activeManager_switched_by_failed_fallback:
  "activeManager newUnified = V1
   \<and> fst (fetchDashboardUnified storedAsV2FailingEnv normalOptions newUnified world0)
       = Inl (FetchError 500 False None ''Internal Server Error'')
   \<and> activeManager (fst (snd (fetchDashboardUnified storedAsV2FailingEnv normalOptions
                                  newUnified world0))) = V2"
  by (simp add: fetchDashboardUnified_def withVersionHandling_def managerFor_def
        newUnified_def newManager_def asV1_def asV2_def fetchDashboard_def fetchDashboardV2_def
        cacheKeyOf_def normalOptions_def getDashboardFromCache_def fetchDashboard_try_def
        fetchDashboardV2_try_def fetchDashboard_switch_def fetchDashboardV2_switch_def Let_def
        storedAsV2FailingEnv_def storedAsV2Env_def sampleEnv_def perform_def world0_def)

section \<open>Cancelled fetches\<close>

text \<open>
  Claim C6. When \<open>fetchDashboard\<close> does not answer from the cache and its \<open>try\<close>
  block raises a cancelled fetch error, \<open>fetchDashboard\<close> returns \<open>null\<close>. When that
  happens to the fetch that \<open>loadDashboard\<close> starts (after \<open>startMeasure\<close>),
  \<open>loadDashboard\<close> returns with the state \<open>loadScene\<close> had set before the fetch
  (no dashboard, loading) and with \<open>loadError\<close> as it was: no error is stored.
\<close>

theorem cancelled_fetch_is_swallowed:
  "(raisesCancelled e options m w \<longrightarrow> fst (fetchDashboard e options m w) = Inr None)
   \<and> (raisesCancelled e options m (perform e StartMeasure w) \<longrightarrow>
        state (fst (loadDashboard e (fetchDashboard e) (transformResponseToScene e) options m w))
          = (state m)\<lparr>st_dashboard := None, st_isLoading := Some True\<rparr>
        \<and> st_loadError (state (fst (loadDashboard e (fetchDashboard e)
                                       (transformResponseToScene e) options m w)))
          = st_loadError (state m))"
proof (intro conjI impI)
  assume "raisesCancelled e options m w"
  then show "fst (fetchDashboard e options m w) = Inr None"
    by (rule fetchDashboard_cancelled)
next
  let ?m1 = "setState (\<lambda>s. s\<lparr>st_dashboard := None, st_isLoading := Some True\<rparr>) m"
  let ?w1 = "perform e StartMeasure w"
  assume "raisesCancelled e options m ?w1"
  then have c: "raisesCancelled e options ?m1 ?w1"
    by (simp add: raisesCancelled_setState)
  obtain r m2 w2 where f: "fetchDashboard e options ?m1 ?w1 = (r, m2, w2)"
    by (cases "fetchDashboard e options ?m1 ?w1") auto
  with fetchDashboard_cancelled [OF c] have r: "r = Inr None"
    by simp
  from f state_fetchDashboard(1) [of e options ?m1 ?w1] have s: "state m2 = state ?m1"
    by simp
  from f r have "loadDashboard e (fetchDashboard e) (transformResponseToScene e) options m w = (m2, w2)"
    by (simp add: loadDashboard_def loadScene_def)
  with s show "state (fst (loadDashboard e (fetchDashboard e) (transformResponseToScene e) options m w))
          = (state m)\<lparr>st_dashboard := None, st_isLoading := Some True\<rparr>"
    "st_loadError (state (fst (loadDashboard e (fetchDashboard e)
                                       (transformResponseToScene e) options m w)))
          = st_loadError (state m)"
    by (simp_all add: setState_def)
qed

theorem cancelled_fetch_is_swallowed_witness:
  "raisesCancelled cancelledEnv normalOptions newManager (perform cancelledEnv StartMeasure world0)
   \<and> fst (fetchDashboard cancelledEnv normalOptions newManager
            (perform cancelledEnv StartMeasure world0)) = Inr None
   \<and> st_loadError (state (fst (loadDashboard cancelledEnv (fetchDashboard cancelledEnv)
                                (transformResponseToScene cancelledEnv) normalOptions
                                newManager world0))) = None"
proof -
  have c: "raisesCancelled cancelledEnv normalOptions newManager
             (perform cancelledEnv StartMeasure world0)"
    by (simp add: raisesCancelled_def Let_def normalOptions_def newManager_def cacheKeyOf_def
          getDashboardFromCache_def fetchDashboard_try_def fetchDashboard_switch_def
          cancelledEnv_def sampleEnv_def)
  have "st_loadError (state (newManager :: ManagerV1)) = None"
    by (simp add: newManager_def initialState_def)
  with c show ?thesis
    using cancelled_fetch_is_swallowed
            [of cancelledEnv normalOptions newManager "perform cancelledEnv StartMeasure world0"]
          cancelled_fetch_is_swallowed [of cancelledEnv normalOptions newManager world0]
    by simp
qed

section \<open>Reloading\<close>

text \<open>
  Claim C5. Without a last load (\<open>state.options\<close> is undefined) \<open>reloadDashboard\<close>
  does nothing. With a last load: when the variables and the scopes of the new params are
  equal to those of \<open>state.options.params\<close>, it returns at once and leaves the manager
  and the world as they are, so it fetches nothing; when they differ, it enters
  \<open>fetchDashboard\<close> exactly once, with the options of the last load and the new params.
  That one fetch sends one request for the dashboard, except that a reload without params
  can be answered from a fresh raw-response entry. Params that differ from those of the last
  load in the version and the time range only never cause a fetch.
\<close>

theorem reloadDashboard_fetches:
  "(st_options (state m) = None \<longrightarrow> reloadDashboard e ps m w = (m, w))
   \<and> (st_options (state m) = Some stateOptions \<longrightarrow>
        (sameContentParams ps (params stateOptions) \<longrightarrow> reloadDashboard e ps m w = (m, w))
        \<and> (\<not> sameContentParams ps (params stateOptions) \<longrightarrow>
             fetchCalls (trace (snd (reloadDashboard e ps m w)))
               = fetchCalls (trace w) @ [(V1, stateOptions\<lparr>params := ps\<rparr>)]
             \<and> length (loadRequests (trace (snd (reloadDashboard e ps m w))))
               = length (loadRequests (trace w))
                 + (if ps = None
                      \<and> getDashboardFromCache (clock w) m (cacheKeyOf stateOptions) \<noteq> None
                    then 0 else 1))
        \<and> (params stateOptions = Some p \<longrightarrow>
             reloadDashboard e (Some (p\<lparr>params_version := v, params_timeRange := tr\<rparr>)) m w
               = (m, w)))"
proof (intro conjI impI)
  assume "st_options (state m) = None"
  then show "reloadDashboard e ps m w = (m, w)"
    by (simp add: reloadDashboard_def)
next
  assume "st_options (state m) = Some stateOptions" "sameContentParams ps (params stateOptions)"
  then show "reloadDashboard e ps m w = (m, w)"
    by (simp add: reloadDashboard_def sameContentParams_def Let_def)
next
  assume a: "st_options (state m) = Some stateOptions"
    "\<not> sameContentParams ps (params stateOptions)"
  show "fetchCalls (trace (snd (reloadDashboard e ps m w)))
          = fetchCalls (trace w) @ [(V1, stateOptions\<lparr>params := ps\<rparr>)]"
    using a by (rule fetchCalls_reloadDashboard)
  show "length (loadRequests (trace (snd (reloadDashboard e ps m w))))
          = length (loadRequests (trace w))
            + (if ps = None
                 \<and> getDashboardFromCache (clock w) m (cacheKeyOf stateOptions) \<noteq> None
               then 0 else 1)"
    using a by (rule loadRequests_reloadDashboard)
next
  assume "st_options (state m) = Some stateOptions" "params stateOptions = Some p"
  then show "reloadDashboard e (Some (p\<lparr>params_version := v, params_timeRange := tr\<rparr>)) m w
               = (m, w)"
    by (simp add: reloadDashboard_def Let_def)
qed

theorem reloadDashboard_fetches_witness:
  "reloadDashboard sampleEnv (Some laterParams) loadedManager world0 = (loadedManager, world0)
   \<and> fetchCalls (trace (snd (reloadDashboard sampleEnv (Some changedVariables) loadedManager world0)))
       = [(V1, normalOptions\<lparr>params := Some changedVariables\<rparr>)]
   \<and> length (loadRequests (trace (snd (reloadDashboard sampleEnv (Some changedVariables)
                                          loadedManager world0)))) = 1
   \<and> fetchCalls (trace (snd (reloadDashboard sampleEnv (Some changedScopes) loadedManager world0)))
       = [(V1, normalOptions\<lparr>params := Some changedScopes\<rparr>)]"
proof -
  have o: "st_options (state loadedManager) = Some (normalOptions\<lparr>params := Some sampleParams\<rparr>)"
    by (simp add: loadedManager_def initialState_def)
  have same: "sameContentParams (Some laterParams) (Some sampleParams)"
    by (simp add: sameContentParams_def laterParams_def)
  have vars: "\<not> sameContentParams (Some changedVariables) (Some sampleParams)"
    by (auto simp: sameContentParams_def changedVariables_def sampleParams_def dest!: map_upd_eqD1)
  have scopes: "\<not> sameContentParams (Some changedScopes) (Some sampleParams)"
    by (simp add: sameContentParams_def changedScopes_def sampleParams_def)
  have t: "trace world0 = []"
    by (simp add: world0_def)
  show ?thesis
    using reloadDashboard_fetches [of loadedManager sampleEnv "Some laterParams" world0
            "normalOptions\<lparr>params := Some sampleParams\<rparr>"]
          reloadDashboard_fetches [of loadedManager sampleEnv "Some changedVariables" world0
            "normalOptions\<lparr>params := Some sampleParams\<rparr>"]
          reloadDashboard_fetches [of loadedManager sampleEnv "Some changedScopes" world0
            "normalOptions\<lparr>params := Some sampleParams\<rparr>"]
    by (simp add: o same vars scopes t loadRequests_def)
qed

section \<open>Where the code departs from the claims\<close>

text \<open>
  Claim C7 fails on \<open>reloadDashboard\<close>. The last load was \<open>normalOptions\<close> with
  \<open>sampleParams\<close>; the reload changes the scopes; the loader answers 404 with the message
  identifier 'dashboards.notFound'. \<open>getMessageIdFromError\<close> finds the identifier in the
  error, yet the \<open>LoadError\<close> that \<open>reloadDashboard\<close> stores has no
  \<open>messageId\<close>; \<open>loadDashboard\<close>, on the same error, stores all three fields.
\<close>

theorem reloadDashboard_drops_messageId:
  "getMessageIdFromError notFoundEnv
      (FetchError 404 False (Some ''dashboards.notFound'') ''Dashboard not found'')
     = Some ''dashboards.notFound''
   \<and> st_loadError (state (fst (reloadDashboard notFoundEnv (Some changedScopes) loadedManager world0)))
     = Some \<lparr>status = Some 404, messageId = None, message = ''Dashboard not found''\<rparr>
   \<and> st_loadError (state (fst (loadDashboard notFoundEnv (fetchDashboard notFoundEnv)
                                (transformResponseToScene notFoundEnv) normalOptions
                                newManager world0)))
     = Some \<lparr>status = Some 404, messageId = Some ''dashboards.notFound'',
             message = ''Dashboard not found''\<rparr>"
  by (simp add: reloadDashboard_def loadDashboard_def loadScene_def loadErrorOf_def Let_def
        loadedManager_def newManager_def initialState_def normalOptions_def changedScopes_def
        sampleParams_def setState_def fetchDashboard_def cacheKeyOf_def getDashboardFromCache_def
        fetchDashboard_try_def fetchDashboard_switch_def notFoundEnv_def sampleEnv_def
        perform_def world0_def)

text \<open>
  Claim C3 fails on \<open>fetchDashboard\<close>. On the New route with an empty uid the built
  dashboard is written into the raw-response cache under the key '', and a read of that
  key within the TTL returns it.
\<close>

theorem fetchDashboard_caches_new_dashboard:
  "fst (fetchDashboard sampleEnv newOptions newManager world0) = Inr (Some sampleDTO)
   \<and> dashboardCache (fst (snd (fetchDashboard sampleEnv newOptions newManager world0)))
     = Some \<lparr>entry_dashboard = sampleDTO, ts = 1010, cacheKey = []\<rparr>
   \<and> getDashboardFromCache 1100 (fst (snd (fetchDashboard sampleEnv newOptions newManager world0))) []
     = Some sampleDTO"
  by (simp add: fetchDashboard_def cacheKeyOf_def getDashboardFromCache_def
        fetchDashboard_try_def fetchDashboard_switch_def fetchDashboard_finish_def Let_def
        newOptions_def newManager_def sampleEnv_def sampleDTO_def perform_def world0_def
        setDashboardCache_def DASHBOARD_CACHE_TTL_def)

end
